theory Spec2Isabelle
  imports Main
begin

section \<open>Python values\<close>

text \<open>
  The client of \<^verbatim>\<open>platform_hierarchy_v1.py\<close> handles values that come out of
  \<^verbatim>\<open>response.json()\<close> and out of the Django cache. They are modelled by one datatype of
  Python values: \<^verbatim>\<open>None\<close>, booleans, integers, strings, lists and dictionaries with string
  keys (kept in insertion order). JSON \<^verbatim>\<open>null\<close> is \<^verbatim>\<open>None\<close>. Floating point numbers are
  outside the model. A string is a list of characters standing for the code points 0..255.
\<close>

datatype pyval =
    PNone
  | PBool bool
  | PInt int
  | PStr string
  | PList "pyval list"
  | PDict "(string \<times> pyval) list"

text \<open>Truth value testing, as \<^verbatim>\<open>if token:\<close> does it.\<close>

fun truthy :: "pyval \<Rightarrow> bool" where
  "truthy PNone = False"
| "truthy (PBool b) = b"
| "truthy (PInt i) = (i \<noteq> 0)"
| "truthy (PStr s) = (s \<noteq> [])"
| "truthy (PList xs) = (xs \<noteq> [])"
| "truthy (PDict kvs) = (kvs \<noteq> [])"

subsection \<open>The text of a value: \<^verbatim>\<open>str()\<close>, \<^verbatim>\<open>repr()\<close> and f-strings\<close>

definition digit_char :: "nat \<Rightarrow> char" where
  "digit_char d = ''0123456789abcdef'' ! d"

function str_nat :: "nat \<Rightarrow> string" where
  "str_nat n =
     (if n < 10 then [digit_char n] else str_nat (n div 10) @ [digit_char (n mod 10)])"
  by pat_completeness auto
termination
  by (relation "measure id") auto

definition str_int :: "int \<Rightarrow> string" where
  "str_int i = (if i < 0 then CHR ''-'' # str_nat (nat (- i)) else str_nat (nat i))"

text \<open>\<^verbatim>\<open>sep.join(parts)\<close>.\<close>

fun join :: "string \<Rightarrow> string list \<Rightarrow> string" where
  "join sep [] = []"
| "join sep [x] = x"
| "join sep (x # y # ys) = x @ sep @ join sep (y # ys)"

definition backslash :: char where
  "backslash = CHR 0x5C"

definition squote :: char where
  "squote = CHR 0x27"

definition dquote :: char where
  "dquote = CHR 0x22"

text \<open>
  \<^verbatim>\<open>repr\<close> of a string: single quotes unless the string holds a single quote and no double
  quote; the quote in use and the backslash are escaped, tab, newline and carriage return
  are written \<^verbatim>\<open>\t \n \r\<close>, every other character that is not printable is written
  \<^verbatim>\<open>\xhh\<close>. Among the code points 128..255 the printable ones are 161..255 without 173.
\<close>

definition printable :: "nat \<Rightarrow> bool" where
  "printable n = ((32 \<le> n \<and> n < 127) \<or> (161 \<le> n \<and> n \<le> 255 \<and> n \<noteq> 173))"

definition repr_char :: "char \<Rightarrow> char \<Rightarrow> string" where
  "repr_char quote c =
     (let n = (of_char c :: nat) in
      if c = quote \<or> c = backslash then [backslash, c]
      else if n = 9 then [backslash, CHR ''t'']
      else if n = 10 then [backslash, CHR ''n'']
      else if n = 13 then [backslash, CHR ''r'']
      else if printable n then [c]
      else [backslash, CHR ''x'', digit_char (n div 16), digit_char (n mod 16)])"

definition repr_str :: "string \<Rightarrow> string" where
  "repr_str s =
     (let quote = (if squote \<in> set s \<and> dquote \<notin> set s then dquote else squote)
      in quote # concat (map (repr_char quote) s) @ [quote])"

fun py_repr :: "pyval \<Rightarrow> string" where
  "py_repr PNone = ''None''"
| "py_repr (PBool b) = (if b then ''True'' else ''False'')"
| "py_repr (PInt i) = str_int i"
| "py_repr (PStr s) = repr_str s"
| "py_repr (PList xs) = ''['' @ join '', '' (map py_repr xs) @ '']''"
| "py_repr (PDict kvs) =
     ''{'' @ join '', '' (map (\<lambda>(k, v). repr_str k @ '': '' @ py_repr v) kvs) @ ''}''"

text \<open>\<^verbatim>\<open>str(v)\<close>, which is also what \<^verbatim>\<open>f"{v}"\<close> inserts: a string is itself, any other
  value is its \<^verbatim>\<open>repr\<close>.\<close>

definition py_str :: "pyval \<Rightarrow> string" where
  "py_str v = (case v of PStr s \<Rightarrow> s | _ \<Rightarrow> py_repr v)"

section \<open>HTTP requests, responses and exceptions\<close>

text \<open>
  A response of the \<^verbatim>\<open>requests\<close> library: its status code and what \<^verbatim>\<open>response.json()\<close>
  gives (\<open>None\<close> when the body is not JSON, where \<^verbatim>\<open>json()\<close> raises).
\<close>

record response =
  status_code :: int
  json_body :: "pyval option"

text \<open>
  The exceptions the client can meet. \<open>HTTPError\<close> carries the response (status code and
  body), as \<^verbatim>\<open>requests.HTTPError\<close> does; \<open>KeyError\<close> carries the key; \<open>RequestException\<close>
  names any other exception raised inside \<^verbatim>\<open>requests.request\<close> (connection failure,
  timeout, invalid header).
\<close>

datatype py_error =
    HTTPError response
  | KeyError pyval
  | IndexError
  | TypeError
  | AttributeError
  | JSONDecodeError
  | ValueError
  | RequestException string

text \<open>The \<^verbatim>\<open>data=\<close> argument: a dictionary of form fields, or the text that
  \<^verbatim>\<open>json.dumps\<close> makes of a value.\<close>

datatype payload =
    Dict "(string \<times> string) list"
  | Json_dumps pyval

text \<open>One call \<^verbatim>\<open>requests.request(method, url, params=.., data=.., headers=..)\<close>;
  \<^verbatim>\<open>requests.post(url, data=d)\<close> is \<^verbatim>\<open>requests.request("post", url, data=d)\<close>.\<close>

record request =
  req_method :: string
  req_url :: string
  req_params :: "(string \<times> string) list"
  req_data :: payload
  req_headers :: "(string \<times> pyval) list"

text \<open>
  Modelled from the spec: \<^verbatim>\<open>raise_for_status\<close>, \<^verbatim>\<open>ok\<close> and \<^verbatim>\<open>json\<close> belong to the response
  class of the \<^verbatim>\<open>requests\<close> library, which is not part of the source file. The failure
  statuses are those of the specification, 4xx and 5xx: \<^verbatim>\<open>response.raise_for_status()\<close>
  raises for the status codes 400..599, and \<^verbatim>\<open>response.ok\<close> is true when it does not
  raise.
\<close>

definition raise_for_status :: "response \<Rightarrow> py_error + unit" where
  "raise_for_status r =
     (if 400 \<le> status_code r \<and> status_code r < 600 then Inl (HTTPError r) else Inr ())"

definition ok :: "response \<Rightarrow> bool" where
  "ok r = (case raise_for_status r of Inl _ \<Rightarrow> False | Inr _ \<Rightarrow> True)"

definition response_json :: "response \<Rightarrow> py_error + pyval" where
  "response_json r = (case json_body r of None \<Rightarrow> Inl JSONDecodeError | Some v \<Rightarrow> Inr v)"

text \<open>\<^verbatim>\<open>d.get(key)\<close>: the value, or \<^verbatim>\<open>None\<close> for a missing key; only a dictionary has
  the method.\<close>

fun py_get :: "pyval \<Rightarrow> string \<Rightarrow> py_error + pyval" where
  "py_get (PDict kvs) k = (case map_of kvs k of None \<Rightarrow> Inr PNone | Some v \<Rightarrow> Inr v)"
| "py_get _ k = Inl AttributeError"

section \<open>Joining URLs\<close>

text \<open>
  Modelled from the spec: \<^verbatim>\<open>urljoin\<close> is imported from \<^verbatim>\<open>urllib.parse\<close> and is not part
  of the source file; the specification calls it the standard base-URL join. The
  definitions below follow \<^verbatim>\<open>urllib/parse.py\<close> of CPython 3.11 function by function, for
  string arguments. Two validity checks of the library go beyond text processing (the
  address inside a bracketed host, and the NFKC normal form of a netloc that is not
  ASCII); they are parameters of the model.
\<close>

record url_checks =
  bracketed_host_invalid :: "string \<Rightarrow> bool"
  netloc_nfkc_invalid :: "string \<Rightarrow> bool"

definition uses_relative :: "string list" where
  "uses_relative = ['''', ''ftp'', ''http'', ''gopher'', ''nntp'', ''imap'',
     ''wais'', ''file'', ''https'', ''shttp'', ''mms'',
     ''prospero'', ''rtsp'', ''rtsps'', ''rtspu'', ''sftp'',
     ''svn'', ''svn+ssh'', ''ws'', ''wss'']"

definition uses_netloc :: "string list" where
  "uses_netloc = ['''', ''ftp'', ''http'', ''gopher'', ''nntp'', ''telnet'',
     ''imap'', ''wais'', ''file'', ''mms'', ''https'', ''shttp'',
     ''snews'', ''prospero'', ''rtsp'', ''rtsps'', ''rtspu'', ''rsync'',
     ''svn'', ''svn+ssh'', ''sftp'', ''nfs'', ''git'', ''git+ssh'',
     ''ws'', ''wss'']"

definition uses_params :: "string list" where
  "uses_params = ['''', ''ftp'', ''hdl'', ''prospero'', ''http'', ''imap'',
     ''https'', ''shttp'', ''rtsp'', ''rtsps'', ''rtspu'', ''sip'',
     ''sips'', ''mms'', ''sftp'', ''tel'']"

definition ascii_upper_letters :: string where
  "ascii_upper_letters = ''ABCDEFGHIJKLMNOPQRSTUVWXYZ''"

definition ascii_lower_letters :: string where
  "ascii_lower_letters = ''abcdefghijklmnopqrstuvwxyz''"

definition scheme_chars :: string where
  "scheme_chars = ascii_lower_letters @ ascii_upper_letters @ ''0123456789'' @ ''+-.''"

definition ascii_alpha :: "char \<Rightarrow> bool" where
  "ascii_alpha c = (c \<in> set (ascii_lower_letters @ ascii_upper_letters))"

definition ascii_lower :: "char \<Rightarrow> char" where
  "ascii_lower c =
     (case map_of (zip ascii_upper_letters ascii_lower_letters) c of
        None \<Rightarrow> c | Some l \<Rightarrow> l)"

definition c0_control_or_space :: "char \<Rightarrow> bool" where
  "c0_control_or_space c = ((of_char c :: nat) \<le> 32)"

definition lstrip_c0 :: "string \<Rightarrow> string" where
  "lstrip_c0 s = dropWhile c0_control_or_space s"

definition strip_c0 :: "string \<Rightarrow> string" where
  "strip_c0 s = rev (dropWhile c0_control_or_space (rev (lstrip_c0 s)))"

definition remove_unsafe :: "string \<Rightarrow> string" where
  "remove_unsafe s = filter (\<lambda>c. (of_char c :: nat) \<notin> {9, 13, 10}) s"

text \<open>\<^verbatim>\<open>s.split(c, 1)\<close> for a string that holds \<open>c\<close>: the text before the first \<open>c\<close> and
  the text after it.\<close>

definition split_first :: "char \<Rightarrow> string \<Rightarrow> string \<times> string" where
  "split_first c s = (takeWhile (\<lambda>x. x \<noteq> c) s, drop 1 (dropWhile (\<lambda>x. x \<noteq> c) s))"

text \<open>\<^verbatim>\<open>s.split(c)\<close>: never the empty list.\<close>

fun split_on :: "char \<Rightarrow> string \<Rightarrow> string list" where
  "split_on c [] = [[]]"
| "split_on c (x # xs) =
     (if x = c then [] # split_on c xs
      else (case split_on c xs of [] \<Rightarrow> [[x]] | y # ys \<Rightarrow> (x # y) # ys))"

text \<open>\<^verbatim>\<open>_splitnetloc(url, 2)\<close>: the netloc runs from position 2 to the first of
  \<^verbatim>\<open>/ ? #\<close>.\<close>

definition splitnetloc :: "string \<Rightarrow> string \<times> string" where
  "splitnetloc u =
     (let delim = (\<lambda>x. x \<in> set ''/?#''); rest = drop 2 u
      in (takeWhile (\<lambda>x. \<not> delim x) rest, dropWhile (\<lambda>x. \<not> delim x) rest))"

text \<open>\<^verbatim>\<open>netloc.partition('[')[2].partition(']')[0]\<close>.\<close>

definition bracketed_host :: "string \<Rightarrow> string" where
  "bracketed_host netloc =
     takeWhile (\<lambda>x. x \<noteq> CHR '']'') (drop 1 (dropWhile (\<lambda>x. x \<noteq> CHR ''['') netloc))"

definition check_brackets :: "url_checks \<Rightarrow> string \<Rightarrow> py_error + unit" where
  "check_brackets ck netloc =
     (if (CHR ''['' \<in> set netloc \<and> CHR '']'' \<notin> set netloc) \<or>
         (CHR '']'' \<in> set netloc \<and> CHR ''['' \<notin> set netloc) then Inl ValueError
      else if CHR ''['' \<in> set netloc \<and> CHR '']'' \<in> set netloc
              \<and> bracketed_host_invalid ck (bracketed_host netloc) then Inl ValueError
      else Inr ())"

definition checknetloc :: "url_checks \<Rightarrow> string \<Rightarrow> py_error + unit" where
  "checknetloc ck netloc =
     (if netloc = [] \<or> (\<forall>c \<in> set netloc. (of_char c :: nat) < 128) then Inr ()
      else if netloc_nfkc_invalid ck netloc then Inl ValueError
      else Inr ())"

text \<open>\<^verbatim>\<open>urlsplit(url, scheme)\<close>: scheme, netloc, path, query, fragment.\<close>

definition urlsplit ::
  "url_checks \<Rightarrow> string \<Rightarrow> string \<Rightarrow> py_error + (string \<times> string \<times> string \<times> string \<times> string)"
where
  "urlsplit ck url0 scheme0 =
     (let url1 = remove_unsafe (lstrip_c0 url0);
          scheme1 = remove_unsafe (strip_c0 scheme0);
          pre = takeWhile (\<lambda>x. x \<noteq> CHR '':'') url1;
          (scheme2, url2) =
            (if CHR '':'' \<in> set url1 \<and> pre \<noteq> [] \<and> ascii_alpha (hd url1)
                \<and> (\<forall>c \<in> set pre. c \<in> set scheme_chars)
             then (map ascii_lower pre, drop (length pre + 1) url1)
             else (scheme1, url1));
          has_netloc = (take 2 url2 = ''//'');
          (netloc, url3) = (if has_netloc then splitnetloc url2 else ([], url2))
      in case (if has_netloc then check_brackets ck netloc else Inr ()) of
           Inl err \<Rightarrow> Inl err
         | Inr _ \<Rightarrow>
            (let (url4, fragment) =
                   (if CHR ''#'' \<in> set url3 then split_first (CHR ''#'') url3 else (url3, []));
                 (url5, query) =
                   (if CHR ''?'' \<in> set url4 then split_first (CHR ''?'') url4 else (url4, []))
             in case checknetloc ck netloc of
                  Inl err \<Rightarrow> Inl err
                | Inr _ \<Rightarrow> Inr (scheme2, netloc, url5, query, fragment)))"

text \<open>\<^verbatim>\<open>_splitparams(url)\<close>: the parameters start at the first \<^verbatim>\<open>;\<close> of the last path
  segment.\<close>

definition splitparams :: "string \<Rightarrow> string \<times> string" where
  "splitparams u =
     (if CHR ''/'' \<in> set u then
        (let last_seg = rev (takeWhile (\<lambda>x. x \<noteq> CHR ''/'') (rev u));
             front = take (length u - length last_seg) u
         in if CHR '';'' \<in> set last_seg
            then (front @ takeWhile (\<lambda>x. x \<noteq> CHR '';'') last_seg,
                  drop 1 (dropWhile (\<lambda>x. x \<noteq> CHR '';'') last_seg))
            else (u, []))
      else if CHR '';'' \<in> set u then split_first (CHR '';'') u
      else (butlast u, u))"

text \<open>\<^verbatim>\<open>urlparse(url, scheme)\<close>: scheme, netloc, path, params, query, fragment.\<close>

definition urlparse ::
  "url_checks \<Rightarrow> string \<Rightarrow> string \<Rightarrow>
     py_error + (string \<times> string \<times> string \<times> string \<times> string \<times> string)"
where
  "urlparse ck url0 scheme0 =
     (case urlsplit ck url0 scheme0 of
        Inl err \<Rightarrow> Inl err
      | Inr (scheme, netloc, u, query, fragment) \<Rightarrow>
          (let (path, params) =
                 (if scheme \<in> set uses_params \<and> CHR '';'' \<in> set u then splitparams u
                  else (u, []))
           in Inr (scheme, netloc, path, params, query, fragment)))"

definition urlunsplit :: "string \<times> string \<times> string \<times> string \<times> string \<Rightarrow> string" where
  "urlunsplit comps =
     (case comps of (scheme, netloc, url0, query, fragment) \<Rightarrow>
        (let url1 =
               (if netloc \<noteq> [] \<or> (scheme \<noteq> [] \<and> scheme \<in> set uses_netloc)
                   \<or> take 2 url0 = ''//''
                then ''//'' @ netloc @
                       (if url0 \<noteq> [] \<and> take 1 url0 \<noteq> ''/'' then ''/'' @ url0 else url0)
                else url0);
             url2 = (if scheme \<noteq> [] then scheme @ '':'' @ url1 else url1);
             url3 = (if query \<noteq> [] then url2 @ ''?'' @ query else url2)
         in if fragment \<noteq> [] then url3 @ ''#'' @ fragment else url3))"

definition urlunparse ::
  "string \<times> string \<times> string \<times> string \<times> string \<times> string \<Rightarrow> string" where
  "urlunparse comps =
     (case comps of (scheme, netloc, url0, params, query, fragment) \<Rightarrow>
        urlunsplit (scheme, netloc,
          (if params \<noteq> [] then url0 @ '';'' @ params else url0), query, fragment))"

text \<open>The loop of \<^verbatim>\<open>urljoin\<close> over the segments: \<^verbatim>\<open>..\<close> pops the last resolved segment
  (nothing happens on the empty list), \<^verbatim>\<open>.\<close> is skipped, any other segment is appended.\<close>

fun resolve_segments :: "string list \<Rightarrow> string list \<Rightarrow> string list" where
  "resolve_segments resolved [] = resolved"
| "resolve_segments resolved (seg # segs) =
     (if seg = ''..'' then resolve_segments (butlast resolved) segs
      else if seg = ''.'' then resolve_segments resolved segs
      else resolve_segments (resolved @ [seg]) segs)"

text \<open>\<^verbatim>\<open>segments[1:-1] = filter(None, segments[1:-1])\<close>.\<close>

definition filter_middle :: "string list \<Rightarrow> string list" where
  "filter_middle segs =
     (if length segs < 3 then segs
      else hd segs # filter (\<lambda>s. s \<noteq> []) (butlast (tl segs)) @ [last segs])"

text \<open>Modelled from the spec: \<^verbatim>\<open>urljoin(base, url)\<close> of \<^verbatim>\<open>urllib.parse\<close>, the base-URL join of
  the specification; a \<^verbatim>\<open>ValueError\<close> of the parser is passed on.\<close>

definition urljoin :: "url_checks \<Rightarrow> string \<Rightarrow> string \<Rightarrow> py_error + string" where
  "urljoin ck base url0 =
     (if base = [] then Inr url0
      else if url0 = [] then Inr base
      else
       (case urlparse ck base [] of
          Inl err \<Rightarrow> Inl err
        | Inr (bscheme, bnetloc, bpath, bparams, bquery, bfragment) \<Rightarrow>
           (case urlparse ck url0 bscheme of
              Inl err \<Rightarrow> Inl err
            | Inr (scheme, netloc0, path, params, query, fragment) \<Rightarrow>
               if scheme \<noteq> bscheme \<or> scheme \<notin> set uses_relative then Inr url0
               else if scheme \<in> set uses_netloc \<and> netloc0 \<noteq> [] then
                 Inr (urlunparse (scheme, netloc0, path, params, query, fragment))
               else
                (let netloc = (if scheme \<in> set uses_netloc then bnetloc else netloc0) in
                 if path = [] \<and> params = [] then
                   Inr (urlunparse (scheme, netloc, bpath, bparams,
                          (if query = [] then bquery else query), fragment))
                 else
                  (let base_parts0 = split_on (CHR ''/'') bpath;
                       base_parts =
                         (if last base_parts0 \<noteq> [] then butlast base_parts0 else base_parts0);
                       segments =
                         (if take 1 path = ''/'' then split_on (CHR ''/'') path
                          else filter_middle (base_parts @ split_on (CHR ''/'') path));
                       resolved0 = resolve_segments [] segments;
                       resolved =
                         (if last segments \<in> {''.'', ''..''} then resolved0 @ [[]]
                          else resolved0);
                       joined = join ''/'' resolved
                   in Inr (urlunparse (scheme, netloc,
                             (if joined = [] then ''/'' else joined),
                             params, query, fragment)))))))"

section \<open>The environment of the client\<close>

text \<open>
  What the module reads and does not change: the Django settings, the URL checks of
  \<^verbatim>\<open>urllib\<close>, and the HTTP layer. \<open>http e history rq\<close> is the outcome of the call
  \<^verbatim>\<open>requests.request\<close> for the request \<open>rq\<close> after the requests of \<open>history\<close>: a response,
  or the exception raised inside the library.
\<close>

record env =
  AUTH_URL :: string
  AUTH_CLIENT_ID :: string
  AUTH_CLIENT_SECRET :: string
  AUTH_AUDIENCE_ID :: string
  checks :: url_checks
  http :: "request list \<Rightarrow> request \<Rightarrow> py_error + response"

text \<open>
  What the module changes: the process-wide cache, the requests sent so far (oldest
  first) and the lines printed so far.
\<close>

record world =
  cache :: "string \<rightharpoonup> pyval \<times> pyval"
  sent :: "request list"
  stdout :: "string list"

text \<open>
  Modelled from the spec: the Django cache is not part of the source file. Following the
  Token Cache Adapter of the specification, \<open>cache_set\<close> keeps the value with the ttl it
  is given and \<open>cache_get\<close> gives the value of a key, \<^verbatim>\<open>None\<close> for a key that has none.
  Eviction after the ttl is the store's own step and no function of the client performs
  it; cache operations do not fail.
\<close>

definition cache_get :: "world \<Rightarrow> string \<Rightarrow> pyval" where
  "cache_get w k = (case cache w k of None \<Rightarrow> PNone | Some (v, ttl) \<Rightarrow> v)"

definition cache_set :: "string \<Rightarrow> pyval \<Rightarrow> pyval \<Rightarrow> world \<Rightarrow> world" where
  "cache_set k v ttl w = w\<lparr>cache := (cache w)(k \<mapsto> (v, ttl))\<rparr>"

definition requests_request :: "env \<Rightarrow> request \<Rightarrow> world \<Rightarrow> (py_error + response) \<times> world" where
  "requests_request e rq w = (http e (sent w) rq, w\<lparr>sent := sent w @ [rq]\<rparr>)"

definition print :: "string \<Rightarrow> world \<Rightarrow> world" where
  "print line w = w\<lparr>stdout := stdout w @ [line]\<rparr>"

section \<open>The module \<^verbatim>\<open>platform_hierarchy_v1\<close>\<close>

definition LOCAL_HIERARCHY_URL :: string where
  "LOCAL_HIERARCHY_URL = ''https://platform-hierarchy-service.localhost.net/''"

definition ORG_ID :: string where
  "ORG_ID = ''3fa85f64-5717-4562-b3fc-2c963f66afa6''"

definition HIERARCHY_TYPE :: string where
  "HIERARCHY_TYPE = ''location''"

subsection \<open>Access token\<close>

text \<open>The request of line 47: \<^verbatim>\<open>requests.post(url, data=data)\<close>.\<close>

definition auth_request :: "env \<Rightarrow> string \<Rightarrow> request" where
  "auth_request e u =
     \<lparr>req_method = ''post'', req_url = u, req_params = [],
      req_data = Dict [(''client_id'', AUTH_CLIENT_ID e),
                       (''client_secret'', AUTH_CLIENT_SECRET e),
                       (''audience'', AUTH_AUDIENCE_ID e),
                       (''grant_type'', ''client_credentials'')],
      req_headers = []\<rparr>"

text \<open>Lines 51 to 60, after \<^verbatim>\<open>raise_for_status\<close> has passed.\<close>

definition store_token :: "response \<Rightarrow> world \<Rightarrow> (py_error + pyval) \<times> world" where
  "store_token r w =
     (if ok r then
        (case response_json r of
           Inl err \<Rightarrow> (Inl err, w)
         | Inr body \<Rightarrow>
            (case py_get body ''token_type'' of
               Inl err \<Rightarrow> (Inl err, w)
             | Inr token_type \<Rightarrow>
                (case py_get body ''access_token'' of
                   Inl err \<Rightarrow> (Inl err, w)
                 | Inr access_token \<Rightarrow>
                    (case py_get body ''expires_in'' of
                       Inl err \<Rightarrow> (Inl err, w)
                     | Inr expiry \<Rightarrow>
                        (Inr (PStr (py_str token_type @ '' '' @ py_str access_token)),
                         cache_set ''access_token''
                           (PStr (py_str token_type @ '' '' @ py_str access_token))
                           expiry w)))))
      else (Inr PNone, w))"

definition get_access_token :: "env \<Rightarrow> world \<Rightarrow> (py_error + pyval) \<times> world" where
  "get_access_token e w =
     (let token = cache_get w ''access_token'' in
      if truthy token then (Inr token, w)
      else
       (case urljoin (checks e) (AUTH_URL e) ''/oauth/token'' of
          Inl err \<Rightarrow> (Inl err, w)
        | Inr u \<Rightarrow>
           (case requests_request e (auth_request e u) w of
              (Inl err, w1) \<Rightarrow> (Inl err, w1)
            | (Inr r, w1) \<Rightarrow>
               (case raise_for_status r of
                  Inl err \<Rightarrow> (Inl err, w1)
                | Inr _ \<Rightarrow> store_token r w1))))"

subsection \<open>Request dispatcher\<close>

definition api_request ::
  "string \<Rightarrow> string \<Rightarrow> payload \<Rightarrow> (string \<times> string) list \<Rightarrow> pyval \<Rightarrow> request" where
  "api_request method u payload uri_params token =
     \<lparr>req_method = method, req_url = u, req_params = uri_params, req_data = payload,
      req_headers = [(''Authorization'', token),
                     (''Content-Type'', PStr ''application/json''),
                     (''accept'', PStr ''application/json'')]\<rparr>"

definition make_api_call ::
  "env \<Rightarrow> string \<Rightarrow> string \<Rightarrow> payload \<Rightarrow> (string \<times> string) list \<Rightarrow> world
     \<Rightarrow> (py_error + response) \<times> world" where
  "make_api_call e method uri payload uri_params w =
     (case get_access_token e w of
        (Inl err, w1) \<Rightarrow> (Inl err, w1)
      | (Inr token, w1) \<Rightarrow>
         (case urljoin (checks e) LOCAL_HIERARCHY_URL uri of
            Inl err \<Rightarrow> (Inl err, w1)
          | Inr u \<Rightarrow>
             (case requests_request e (api_request method u payload uri_params token) w1 of
                (Inl err, w2) \<Rightarrow> (Inl err, w2)
              | (Inr r, w2) \<Rightarrow>
                 (case raise_for_status r of
                    Inl err \<Rightarrow> (Inl err, w2)
                  | Inr _ \<Rightarrow>
                     (Inr r,
                      print (''Hierarchy response status code - '' @ str_int (status_code r))
                        (print (''Positive Response - '' @ py_str (PBool (ok r))) w2))))))"

text \<open>A function that calls the dispatcher and returns nothing.\<close>

definition discard :: "(py_error + response) \<times> world \<Rightarrow> (py_error + unit) \<times> world" where
  "discard res = (case res of (Inl err, w) \<Rightarrow> (Inl err, w) | (Inr r, w) \<Rightarrow> (Inr (), w))"

subsection \<open>Hierarchy node operations\<close>

definition hierarchy_uri :: string where
  "hierarchy_uri = ''/v1/organisation/'' @ ORG_ID @ ''/hierarchy/'' @ HIERARCHY_TYPE"

definition insert_root_companyunit_node :: "env \<Rightarrow> world \<Rightarrow> (py_error + unit) \<times> world" where
  "insert_root_companyunit_node e w =
     discard (make_api_call e ''PUT'' hierarchy_uri
       (Json_dumps (PDict [(''shortCode'', PStr ''root''),
                           (''name'', PStr ''Top Company''),
                           (''archived'', PBool False),
                           (''nodeType'', PStr ''company'')]))
       [] w)"

definition insert_company_unit_division_node :: "env \<Rightarrow> world \<Rightarrow> (py_error + unit) \<times> world" where
  "insert_company_unit_division_node e w =
     (let shortCode = ''edinburgh'' in
      discard (make_api_call e ''PUT'' (hierarchy_uri @ ''/nodes/'' @ shortCode)
        (Json_dumps (PDict [(''name'', PStr ''Edinburgh''),
                            (''parentShortCode'', PStr ''root''),
                            (''parentId'', PStr ''40c46fec-206e-426b-8c6c-199925c44441''),
                            (''archived'', PBool False),
                            (''nodeType'', PStr ''division'')]))
        [] w))"

definition insert_company_unit_site_node :: "env \<Rightarrow> world \<Rightarrow> (py_error + unit) \<times> world" where
  "insert_company_unit_site_node e w =
     (let shortCode = ''eedinburgh-office'' in
      discard (make_api_call e ''PUT'' (hierarchy_uri @ ''/nodes/'' @ shortCode)
        (Json_dumps (PDict [(''name'', PStr ''Edinburgh Office''),
                            (''parentShortCode'', PStr ''edinburgh''),
                            (''parentId'', PStr ''caa8aae2-ab54-4f0d-a580-28e1ce49cc60''),
                            (''archived'', PBool False),
                            (''nodeType'', PStr ''site'')]))
        [] w))"

definition get_root_companyunit_node :: "env \<Rightarrow> world \<Rightarrow> (py_error + response) \<times> world" where
  "get_root_companyunit_node e w =
     make_api_call e ''GET'' (hierarchy_uri @ ''/nodes'') (Dict [])
       [(''$filter'', ''ShortCode eq 'root'' @ [squote])] w"

definition get_company_unit_node ::
  "env \<Rightarrow> string \<Rightarrow> world \<Rightarrow> (py_error + response) \<times> world" where
  "get_company_unit_node e nodeId w =
     make_api_call e ''GET'' (hierarchy_uri @ ''/nodes/'' @ nodeId) (Dict []) [] w"

definition get_divisions_company_unit_nodes ::
  "env \<Rightarrow> world \<Rightarrow> (py_error + response) \<times> world" where
  "get_divisions_company_unit_nodes e w =
     make_api_call e ''GET'' (hierarchy_uri @ ''/nodes'') (Dict [])
       [(''$filter'', ''NodeType eq 'division'' @ [squote])] w"

definition get_sites_company_unit_nodes ::
  "env \<Rightarrow> world \<Rightarrow> (py_error + response) \<times> world" where
  "get_sites_company_unit_nodes e w =
     make_api_call e ''GET'' (hierarchy_uri @ ''/nodes'') (Dict [])
       [(''$filter'', ''NodeType eq 'site'' @ [squote])] w"

definition get_company_unit_nodes :: "env \<Rightarrow> world \<Rightarrow> (py_error + response) \<times> world" where
  "get_company_unit_nodes e w =
     make_api_call e ''GET'' (hierarchy_uri @ ''/nodes'') (Dict [])
       [(''$filter'', ''ShortCode ne 'root'' @ [squote])] w"

definition archive_company_unit_node ::
  "env \<Rightarrow> string \<Rightarrow> world \<Rightarrow> (py_error + unit) \<times> world" where
  "archive_company_unit_node e nodeId w =
     discard (make_api_call e ''PATCH'' (hierarchy_uri @ ''/nodes/'' @ nodeId)
       (Json_dumps (PList [PDict [(''value'', PBool True),
                                  (''path'', PStr ''/Archived''),
                                  (''op'', PStr ''replace'')]]))
       [] w)"

definition unarchive_company_unit_node ::
  "env \<Rightarrow> string \<Rightarrow> world \<Rightarrow> (py_error + unit) \<times> world" where
  "unarchive_company_unit_node e nodeId w =
     discard (make_api_call e ''PATCH'' (hierarchy_uri @ ''/nodes/'' @ nodeId)
       (Json_dumps (PList [PDict [(''value'', PBool False),
                                  (''path'', PStr ''/Archived''),
                                  (''op'', PStr ''replace'')]]))
       [] w)"

subsection \<open>Extraction helpers\<close>

text \<open>\<^verbatim>\<open>xs[i]\<close> on a sequence: a negative index counts from the end, an index out of
  range raises \<^verbatim>\<open>IndexError\<close>.\<close>

definition seq_index :: "'a list \<Rightarrow> int \<Rightarrow> py_error + 'a" where
  "seq_index xs i =
     (if 0 \<le> i \<and> i < int (length xs) then Inr (xs ! nat i)
      else if i < 0 \<and> - int (length xs) \<le> i then Inr (xs ! nat (int (length xs) + i))
      else Inl IndexError)"

text \<open>
  \<^verbatim>\<open>obj[key]\<close>. A dictionary (its keys are strings) raises \<^verbatim>\<open>KeyError(key)\<close> for a key it
  does not hold and \<^verbatim>\<open>TypeError\<close> for a key that cannot be hashed; a list or a string takes
  an integer (a boolean is one) and gives the element, a string its character; \<^verbatim>\<open>None\<close>,
  booleans and integers cannot be subscripted.
\<close>

fun py_getitem :: "pyval \<Rightarrow> pyval \<Rightarrow> py_error + pyval" where
  "py_getitem (PDict kvs) (PStr k) =
     (case map_of kvs k of None \<Rightarrow> Inl (KeyError (PStr k)) | Some v \<Rightarrow> Inr v)"
| "py_getitem (PDict kvs) (PList ks) = Inl TypeError"
| "py_getitem (PDict kvs) (PDict ks) = Inl TypeError"
| "py_getitem (PDict kvs) key = Inl (KeyError key)"
| "py_getitem (PList xs) (PInt i) = seq_index xs i"
| "py_getitem (PList xs) (PBool b) = seq_index xs (if b then 1 else 0)"
| "py_getitem (PList xs) key = Inl TypeError"
| "py_getitem (PStr s) (PInt i) = map_sum id (\<lambda>c. PStr [c]) (seq_index s i)"
| "py_getitem (PStr s) (PBool b) = map_sum id (\<lambda>c. PStr [c]) (seq_index s (if b then 1 else 0))"
| "py_getitem (PStr s) key = Inl TypeError"
| "py_getitem obj key = Inl TypeError"

text \<open>Iteration, as a comprehension does it: the elements of a list, the characters of a
  string, the keys of a dictionary; anything else is not iterable.\<close>

fun py_iter :: "pyval \<Rightarrow> py_error + pyval list" where
  "py_iter (PList xs) = Inr xs"
| "py_iter (PStr s) = Inr (map (\<lambda>c. PStr [c]) s)"
| "py_iter (PDict kvs) = Inr (map (\<lambda>kv. PStr (fst kv)) kvs)"
| "py_iter obj = Inl TypeError"

text \<open>\<^verbatim>\<open>str(e)\<close> for a \<^verbatim>\<open>KeyError\<close> \<open>e\<close> with key \<open>k\<close> is \<^verbatim>\<open>repr(k)\<close>.\<close>

text \<open>
  The helpers print and return, so their result is the pair of the lines printed and of
  the value returned or the exception raised. A function that ends without \<^verbatim>\<open>return\<close>
  returns \<^verbatim>\<open>None\<close>. The leading underscore of the source names is dropped.
\<close>

definition get_root_value :: "pyval \<Rightarrow> string list \<times> (py_error + pyval)" where
  "get_root_value json_payload =
     (case (case py_getitem json_payload (PStr ''value'') of
              Inl err \<Rightarrow> Inl err
            | Inr v \<Rightarrow> py_getitem v (PInt 0)) of
        Inr x \<Rightarrow> ([], Inr x)
      | Inl (KeyError k) \<Rightarrow>
          ([''Error occurred when getting root payload value '' @ py_repr k], Inr PNone)
      | Inl err \<Rightarrow> ([], Inl err))"

definition get_root_id :: "pyval \<Rightarrow> string list \<times> (py_error + pyval)" where
  "get_root_id json_payload =
     (case (case py_getitem json_payload (PStr ''value'') of
              Inl err \<Rightarrow> Inl err
            | Inr v \<Rightarrow>
               (case py_getitem v (PInt 0) of
                  Inl err \<Rightarrow> Inl err
                | Inr x \<Rightarrow> py_getitem x (PStr ''Id''))) of
        Inr x \<Rightarrow> ([], Inr x)
      | Inl (KeyError k) \<Rightarrow> ([''Error occurred when getting root id '' @ py_repr k], Inr PNone)
      | Inl err \<Rightarrow> ([], Inl err))"

definition get_all_node_values :: "pyval \<Rightarrow> py_error + pyval" where
  "get_all_node_values json_payload =
     (case py_getitem json_payload (PStr ''value'') of
        Inl err \<Rightarrow> Inl err
      | Inr v \<Rightarrow> map_sum id PList (py_iter v))"

section \<open>The short code of the specification\<close>

text \<open>
  The specification's rule for the short code of a node, written from its words
  ("lower-cased, hyphenated form of the name"): every letter in lower case, every space
  a hyphen. The source has no such function; its short codes are literals.
\<close>

definition spec_short_code :: "string \<Rightarrow> string" where
  "spec_short_code name = map (\<lambda>c. if c = CHR '' '' then CHR ''-'' else ascii_lower c) name"

section \<open>The standard's examples of reference resolution\<close>

text \<open>
  Modelled from the spec: the specification calls the resolution of the dispatcher the
  standard base-URL join. The standard is RFC 3986; its section 5.4 lists, for the base
  \<^verbatim>\<open>http://a/b/c/d;p?q\<close>, references and the URL each resolves to. The tables below are
  that list: the normal examples of 5.4.1 and the abnormal ones of 5.4.2 (for \<^verbatim>\<open>http:g\<close>
  with the target the standard allows for backward compatibility). Each is a pair of a
  reference and its target.
\<close>

definition rfc3986_base :: string where
  "rfc3986_base = ''http://a/b/c/d;p?q''"

definition rfc3986_normal_examples :: "(string \<times> string) list" where
  "rfc3986_normal_examples =
     [(''g:h'', ''g:h''),
      (''g'', ''http://a/b/c/g''),
      (''./g'', ''http://a/b/c/g''),
      (''g/'', ''http://a/b/c/g/''),
      (''/g'', ''http://a/g''),
      (''//g'', ''http://g''),
      (''?y'', ''http://a/b/c/d;p?y''),
      (''g?y'', ''http://a/b/c/g?y''),
      (''#s'', ''http://a/b/c/d;p?q#s''),
      (''g#s'', ''http://a/b/c/g#s''),
      (''g?y#s'', ''http://a/b/c/g?y#s''),
      ('';x'', ''http://a/b/c/;x''),
      (''g;x'', ''http://a/b/c/g;x''),
      (''g;x?y#s'', ''http://a/b/c/g;x?y#s''),
      ('''', ''http://a/b/c/d;p?q''),
      (''.'', ''http://a/b/c/''),
      (''./'', ''http://a/b/c/''),
      (''..'', ''http://a/b/''),
      (''../'', ''http://a/b/''),
      (''../g'', ''http://a/b/g''),
      (''../..'', ''http://a/''),
      (''../../'', ''http://a/''),
      (''../../g'', ''http://a/g'')]"

definition rfc3986_abnormal_examples :: "(string \<times> string) list" where
  "rfc3986_abnormal_examples =
     [(''../../../g'', ''http://a/g''),
      (''../../../../g'', ''http://a/g''),
      (''/./g'', ''http://a/g''),
      (''/../g'', ''http://a/g''),
      (''g.'', ''http://a/b/c/g.''),
      (''.g'', ''http://a/b/c/.g''),
      (''g..'', ''http://a/b/c/g..''),
      (''..g'', ''http://a/b/c/..g''),
      (''./../g'', ''http://a/b/g''),
      (''./g/.'', ''http://a/b/c/g/''),
      (''g/./h'', ''http://a/b/c/g/h''),
      (''g/../h'', ''http://a/b/c/h''),
      (''g;x=1/./y'', ''http://a/b/c/g;x=1/y''),
      (''g;x=1/../y'', ''http://a/b/c/y''),
      (''g?y/./x'', ''http://a/b/c/g?y/./x''),
      (''g?y/../x'', ''http://a/b/c/g?y/../x''),
      (''g#s/./x'', ''http://a/b/c/g#s/./x''),
      (''g#s/../x'', ''http://a/b/c/g#s/../x''),
      (''http:g'', ''http://a/b/c/g'')]"

text \<open>\<open>urljoin\<close> resolves the reference of an example against the base to its target.\<close>

definition resolves :: "url_checks \<Rightarrow> string \<Rightarrow> string \<times> string \<Rightarrow> bool" where
  "resolves ck base example = (urljoin ck base (fst example) = Inr (snd example))"

text \<open>A text without the delimiters \<^verbatim>\<open># ? ;\<close> and without tab and line breaks.\<close>

definition no_delimiters :: "string \<Rightarrow> bool" where
  "no_delimiters s = (\<forall>c \<in> set s. c \<notin> set ''#?;'' \<and> (of_char c :: nat) \<notin> {9, 13, 10})"

text \<open>A path none of whose segments is \<^verbatim>\<open>.\<close> or \<^verbatim>\<open>..\<close>.\<close>

definition no_dot_segments :: "string \<Rightarrow> bool" where
  "no_dot_segments s =
     (''.'' \<notin> set (split_on (CHR ''/'') s) \<and> ''..'' \<notin> set (split_on (CHR ''/'') s))"

section \<open>The token cache as the client leaves it\<close>

text \<open>
  The states of the token cache that the client can produce. The only write to the
  cache is the one of line 56, and it stores a string with a space in it; so under the
  key of the token there is either no entry, or a value that passes the truth test of
  \<^verbatim>\<open>if token:\<close>. The empty cache is such a state and every call keeps the property
  (\<open>token_cache_inv_empty\<close>, \<open>token_cache_inv_get_access_token\<close>,
  \<open>token_cache_inv_make_api_call\<close>).
\<close>

definition token_cache_inv :: "world \<Rightarrow> bool" where
  "token_cache_inv w =
     (case cache w ''access_token'' of None \<Rightarrow> True | Some (v, ttl) \<Rightarrow> truthy v)"

section \<open>Concrete environments\<close>

definition no_checks :: url_checks where
  "no_checks = \<lparr>bracketed_host_invalid = (\<lambda>h. False), netloc_nfkc_invalid = (\<lambda>n. False)\<rparr>"

definition example_env :: "(request list \<Rightarrow> request \<Rightarrow> py_error + response) \<Rightarrow> env" where
  "example_env h =
     \<lparr>AUTH_URL = ''https://auth.example.com/'', AUTH_CLIENT_ID = ''id'',
      AUTH_CLIENT_SECRET = ''secret'', AUTH_AUDIENCE_ID = ''aud'',
      checks = no_checks, http = h\<rparr>"

definition empty_world :: world where
  "empty_world = \<lparr>cache = Map.empty, sent = [], stdout = []\<rparr>"

text \<open>The answer of a token endpoint, and an HTTP layer that gives it to every request.\<close>

definition token_response :: response where
  "token_response =
     \<lparr>status_code = 200,
      json_body = Some (PDict [(''token_type'', PStr ''Bearer''),
                               (''access_token'', PStr ''abc123''),
                               (''expires_in'', PInt 3600)])\<rparr>"

definition token_server :: "request list \<Rightarrow> request \<Rightarrow> py_error + response" where
  "token_server history rq = Inr token_response"

text \<open>An HTTP layer that gives the response \<open>r\<close> to every request.\<close>

definition constant_server :: "response \<Rightarrow> request list \<Rightarrow> request \<Rightarrow> py_error + response" where
  "constant_server r history rq = Inr r"

definition unauthorized :: response where
  "unauthorized = \<lparr>status_code = 401, json_body = None\<rparr>"

definition empty_body_response :: response where
  "empty_body_response = \<lparr>status_code = 200, json_body = Some (PDict [])\<rparr>"

text \<open>A successful answer of the hierarchy service: an envelope without nodes.\<close>

definition ok_response :: response where
  "ok_response = \<lparr>status_code = 200, json_body = Some (PDict [(''value'', PList [])])\<rparr>"

text \<open>The URL of the node collection.\<close>

definition nodes_collection_url :: string where
  "nodes_collection_url = ''https://platform-hierarchy-service.localhost.net/v1/organisation/3fa85f64-5717-4562-b3fc-2c963f66afa6/hierarchy/location/nodes''"

text \<open>The request that fetches a token in the example environment.\<close>

definition example_auth_request :: request where
  "example_auth_request =
     \<lparr>req_method = ''post'', req_url = ''https://auth.example.com/oauth/token'',
      req_params = [],
      req_data = Dict [(''client_id'', ''id''), (''client_secret'', ''secret''),
                       (''audience'', ''aud''), (''grant_type'', ''client_credentials'')],
      req_headers = []\<rparr>"

text \<open>The world after a token has been fetched from \<open>token_server\<close> into the empty
  world.\<close>

definition warm_world :: world where
  "warm_world =
     \<lparr>cache = [''access_token'' \<mapsto> (PStr ''Bearer abc123'', PInt 3600)],
      sent = [example_auth_request], stdout = []\<rparr>"

section \<open>Basic facts\<close>

lemma ok_iff: "ok r \<longleftrightarrow> \<not> (400 \<le> status_code r \<and> status_code r < 600)"
  by (simp add: ok_def raise_for_status_def)

lemma py_str_PStr: "py_str (PStr s) = s"
  by (simp add: py_str_def)

lemma cache_get_cache_set: "cache_get (cache_set k v ttl w) k = v"
  by (simp add: cache_get_def cache_set_def)

lemma auth_url_example:
  "urljoin ck ''https://auth.example.com/'' ''/oauth/token'' =
     Inr ''https://auth.example.com/oauth/token''"
  by code_simp

lemma auth_request_example:
  "auth_request (example_env h) ''https://auth.example.com/oauth/token'' = example_auth_request"
  by (simp add: auth_request_def example_env_def example_auth_request_def)

subsection \<open>The two paths of \<open>get_access_token\<close>\<close>

lemma get_access_token_hit:
  "truthy (cache_get w ''access_token'') \<Longrightarrow>
     get_access_token e w = (Inr (cache_get w ''access_token''), w)"
  by (simp add: get_access_token_def)

lemma get_access_token_miss:
  assumes "\<not> truthy (cache_get w ''access_token'')"
    and "urljoin (checks e) (AUTH_URL e) ''/oauth/token'' = Inr u"
    and "http e (sent w) (auth_request e u) = Inr r"
  shows "get_access_token e w =
           (if 400 \<le> status_code r \<and> status_code r < 600
            then (Inl (HTTPError r), w\<lparr>sent := sent w @ [auth_request e u]\<rparr>)
            else store_token r (w\<lparr>sent := sent w @ [auth_request e u]\<rparr>))"
  using assms
  by (simp add: get_access_token_def requests_request_def raise_for_status_def)

lemma store_token_dict:
  assumes "\<not> (400 \<le> status_code r \<and> status_code r < 600)"
    and "json_body r = Some (PDict kvs)"
  shows "store_token r w =
           (Inr (PStr (py_str (case map_of kvs ''token_type'' of None \<Rightarrow> PNone | Some v \<Rightarrow> v)
                   @ '' '' @
                   py_str (case map_of kvs ''access_token'' of None \<Rightarrow> PNone | Some v \<Rightarrow> v))),
            cache_set ''access_token''
              (PStr (py_str (case map_of kvs ''token_type'' of None \<Rightarrow> PNone | Some v \<Rightarrow> v)
                   @ '' '' @
                   py_str (case map_of kvs ''access_token'' of None \<Rightarrow> PNone | Some v \<Rightarrow> v)))
              (case map_of kvs ''expires_in'' of None \<Rightarrow> PNone | Some v \<Rightarrow> v) w)"
  using assms
  by (simp add: store_token_def ok_iff response_json_def split: option.splits)

lemma store_token_Inr:
  assumes "\<not> (400 \<le> status_code r \<and> status_code r < 600)"
    and "store_token r w = (Inr v, w1)"
  shows "\<exists>s ttl. v = PStr s \<and> s \<noteq> [] \<and> w1 = cache_set ''access_token'' v ttl w"
  using assms
  by (auto simp add: store_token_def ok_iff split: sum.splits)

lemma store_token_Inl: "store_token r w = (Inl err, w1) \<Longrightarrow> w1 = w"
  by (auto simp add: store_token_def split: sum.splits if_splits)

lemma get_access_token_Inr:
  assumes "get_access_token e w = (Inr v, w1)"
  shows "(truthy (cache_get w ''access_token'') \<and> v = cache_get w ''access_token'' \<and> w1 = w)
       \<or> (\<not> truthy (cache_get w ''access_token'') \<and>
           (\<exists>u s ttl. urljoin (checks e) (AUTH_URL e) ''/oauth/token'' = Inr u
              \<and> v = PStr s \<and> s \<noteq> []
              \<and> w1 = cache_set ''access_token'' v ttl
                       (w\<lparr>sent := sent w @ [auth_request e u]\<rparr>)))"
proof (cases "truthy (cache_get w ''access_token'')")
  case True
  with assms show ?thesis by (auto simp add: get_access_token_hit)
next
  case False
  from assms False obtain u where u: "urljoin (checks e) (AUTH_URL e) ''/oauth/token'' = Inr u"
    by (auto simp add: get_access_token_def split: sum.splits)
  from assms False u obtain r where r: "http e (sent w) (auth_request e u) = Inr r"
    by (auto simp add: get_access_token_def requests_request_def split: sum.splits)
  from assms have "\<not> (400 \<le> status_code r \<and> status_code r < 600)"
    and "store_token r (w\<lparr>sent := sent w @ [auth_request e u]\<rparr>) = (Inr v, w1)"
    unfolding get_access_token_miss [OF False u r] by (auto split: if_splits)
  from store_token_Inr [OF this] False u show ?thesis by blast
qed

lemma get_access_token_Inl_cache:
  assumes "get_access_token e w = (Inl err, w1)"
  shows "cache w1 = cache w"
  using assms
  by (auto simp add: get_access_token_def requests_request_def Let_def
      split: sum.splits if_splits prod.splits dest!: store_token_Inl)

lemma get_access_token_example:
  "get_access_token (example_env token_server) empty_world =
     (Inr (PStr ''Bearer abc123''), warm_world)"
  by (simp add: get_access_token_miss [where u = "''https://auth.example.com/oauth/token''"
        and r = token_response] store_token_dict [where kvs = "[(''token_type'', PStr ''Bearer''),
          (''access_token'', PStr ''abc123''), (''expires_in'', PInt 3600)]"]
      cache_get_def empty_world_def example_env_def auth_url_example token_server_def
      token_response_def py_str_def cache_set_def warm_world_def auth_request_def
      example_auth_request_def)

lemma get_access_token_empty_body:
  "get_access_token (example_env (constant_server empty_body_response)) empty_world =
     (Inr (PStr ''None None''),
      \<lparr>cache = [''access_token'' \<mapsto> (PStr ''None None'', PNone)],
       sent = [example_auth_request], stdout = []\<rparr>)"
  by (simp add: get_access_token_miss [where u = "''https://auth.example.com/oauth/token''"
        and r = empty_body_response] store_token_dict [where kvs = "[]"]
      cache_get_def empty_world_def example_env_def auth_url_example constant_server_def
      empty_body_response_def py_str_def cache_set_def auth_request_def
      example_auth_request_def)

subsection \<open>URLs of the hierarchy service\<close>

lemma base_parse:
  "urlparse ck LOCAL_HIERARCHY_URL [] =
     Inr (''https'', ''platform-hierarchy-service.localhost.net'', ''/'', [], [], [])"
  by code_simp

lemma urlsplit_rooted:
  "\<exists>p. urlsplit ck (CHR ''/'' # CHR ''v'' # rest) sch = Inr p"
proof -
  have l: "lstrip_c0 (CHR ''/'' # CHR ''v'' # rest) = CHR ''/'' # CHR ''v'' # rest"
    by (simp add: lstrip_c0_def c0_control_or_space_def)
  have t: "remove_unsafe (CHR ''/'' # CHR ''v'' # rest) =
             CHR ''/'' # CHR ''v'' # remove_unsafe rest"
    by (simp add: remove_unsafe_def)
  have na: "\<not> ascii_alpha (CHR ''/'')"
    by (simp add: ascii_alpha_def ascii_lower_letters_def ascii_upper_letters_def)
  show ?thesis
    unfolding urlsplit_def l t
    using na
    by (simp add: Let_def checknetloc_def split: prod.splits)
qed

lemma urlparse_rooted:
  "\<exists>p. urlparse ck (CHR ''/'' # CHR ''v'' # rest) sch = Inr p"
proof -
  from urlsplit_rooted obtain p where "urlsplit ck (CHR ''/'' # CHR ''v'' # rest) sch = Inr p"
    by blast
  then show ?thesis
    by (cases p) (simp add: urlparse_def Let_def split: prod.splits)
qed

lemma urljoin_parsed:
  assumes "urlparse ck base [] = Inr (bscheme, bn, bp, bpa, bq, bf)"
    and "urlparse ck url0 bscheme = Inr p"
  shows "\<exists>u. urljoin ck base url0 = Inr u"
  using assms by (cases p) (simp add: urljoin_def Let_def)

text \<open>No URI under the hierarchy prefix makes \<open>urljoin\<close> raise.\<close>

lemma hierarchy_urljoin:
  "\<exists>u. urljoin ck LOCAL_HIERARCHY_URL (hierarchy_uri @ rest) = Inr u"
proof -
  have "hierarchy_uri @ rest =
          CHR ''/'' # CHR ''v'' #
            (''1/organisation/'' @ ORG_ID @ ''/hierarchy/'' @ HIERARCHY_TYPE @ rest)"
    by (simp add: hierarchy_uri_def)
  with urlparse_rooted obtain p where "urlparse ck (hierarchy_uri @ rest) ''https'' = Inr p"
    by metis
  from urljoin_parsed [OF base_parse this] show ?thesis .
qed

lemma nodes_url:
  "urljoin ck LOCAL_HIERARCHY_URL (hierarchy_uri @ ''/nodes'') =
     Inr ''https://platform-hierarchy-service.localhost.net/v1/organisation/3fa85f64-5717-4562-b3fc-2c963f66afa6/hierarchy/location/nodes''"
  by code_simp

subsection \<open>The dispatcher after a token has been obtained\<close>

lemma make_api_call_response:
  assumes "get_access_token e w = (Inr token, w1)"
    and "urljoin (checks e) LOCAL_HIERARCHY_URL uri = Inr u"
    and "http e (sent w1) (api_request method u payload uri_params token) = Inr r"
  shows "make_api_call e method uri payload uri_params w =
           (if 400 \<le> status_code r \<and> status_code r < 600
            then (Inl (HTTPError r),
                  w1\<lparr>sent := sent w1 @ [api_request method u payload uri_params token]\<rparr>)
            else (Inr r,
                  w1\<lparr>sent := sent w1 @ [api_request method u payload uri_params token],
                     stdout := stdout w1 @
                       [''Positive Response - True'',
                        ''Hierarchy response status code - '' @ str_int (status_code r)]\<rparr>))"
  using assms
  by (simp add: make_api_call_def requests_request_def raise_for_status_def print_def
      ok_iff py_str_def)

lemma make_api_call_raises:
  assumes "get_access_token e w = (Inr token, w1)"
    and "\<forall>rq. http e (sent w1) rq = Inr r"
    and "400 \<le> status_code r \<and> status_code r < 600"
  shows "\<exists>rq. make_api_call e method (hierarchy_uri @ rest) payload uri_params w =
           (Inl (HTTPError r), w1\<lparr>sent := sent w1 @ [rq]\<rparr>)"
proof -
  from hierarchy_urljoin obtain u
    where u: "urljoin (checks e) LOCAL_HIERARCHY_URL (hierarchy_uri @ rest) = Inr u"
    by blast
  from assms(2) have "http e (sent w1) (api_request method u payload uri_params token) = Inr r"
    by simp
  from make_api_call_response [OF assms(1) u this] assms(3) show ?thesis by auto
qed

lemma discard_Inl: "discard (Inl err, w) = (Inl err, w)"
  by (simp add: discard_def)

lemma warm_world_hit:
  "get_access_token e warm_world = (Inr (PStr ''Bearer abc123''), warm_world)"
  by (simp add: get_access_token_hit cache_get_def warm_world_def)

lemma str_int_200: "str_int 200 = ''200''"
  by code_simp

lemma nodes_url_example:
  "urljoin ck LOCAL_HIERARCHY_URL (hierarchy_uri @ ''/nodes'') = Inr nodes_collection_url"
  by (simp only: nodes_url nodes_collection_url_def)

lemma make_api_call_sent:
  assumes "get_access_token e w = (Inr token, w1)"
    and "urljoin (checks e) LOCAL_HIERARCHY_URL uri = Inr u"
  shows "sent (snd (make_api_call e method uri payload uri_params w)) =
           sent w1 @ [api_request method u payload uri_params token]"
  using assms
  by (simp add: make_api_call_def requests_request_def print_def split: sum.splits)

lemma site_url:
  "urljoin ck LOCAL_HIERARCHY_URL (hierarchy_uri @ ''/nodes/eedinburgh-office'') =
     Inr (nodes_collection_url @ ''/eedinburgh-office'')"
  by code_simp

lemma division_url:
  "urljoin ck LOCAL_HIERARCHY_URL (hierarchy_uri @ ''/nodes/edinburgh'') =
     Inr (nodes_collection_url @ ''/edinburgh'')"
  by code_simp

subsection \<open>Subscripts in the extraction helpers\<close>

lemma seq_index_0: "seq_index xs 0 = (case xs of [] \<Rightarrow> Inl IndexError | x # _ \<Rightarrow> Inr x)"
  by (cases xs) (simp_all add: seq_index_def)

lemma getitem_0:
  "py_getitem v (PInt 0) =
     (case v of
        PDict d \<Rightarrow> Inl (KeyError (PInt 0))
      | PList [] \<Rightarrow> Inl IndexError
      | PList (x # xs) \<Rightarrow> Inr x
      | PStr [] \<Rightarrow> Inl IndexError
      | PStr (c # cs) \<Rightarrow> Inr (PStr [c])
      | _ \<Rightarrow> Inl TypeError)"
  by (cases v) (simp_all add: seq_index_0 split: list.splits)

lemma getitem_Id:
  "py_getitem x (PStr ''Id'') =
     (case x of
        PDict d \<Rightarrow> (case map_of d ''Id'' of None \<Rightarrow> Inl (KeyError (PStr ''Id'')) | Some v \<Rightarrow> Inr v)
      | _ \<Rightarrow> Inl TypeError)"
  by (cases x) simp_all

lemma get_root_value_dict:
  "get_root_value (PDict kvs) =
     (case map_of kvs ''value'' of
        None \<Rightarrow> ([''Error occurred when getting root payload value '' @ py_repr (PStr ''value'')],
                 Inr PNone)
      | Some (PDict d) \<Rightarrow> ([''Error occurred when getting root payload value 0''], Inr PNone)
      | Some (PList []) \<Rightarrow> ([], Inl IndexError)
      | Some (PList (x # xs)) \<Rightarrow> ([], Inr x)
      | Some (PStr []) \<Rightarrow> ([], Inl IndexError)
      | Some (PStr (c # cs)) \<Rightarrow> ([], Inr (PStr [c]))
      | Some _ \<Rightarrow> ([], Inl TypeError))"
proof -
  have z: "str_int 0 = ''0''" by code_simp
  show ?thesis
    by (simp add: get_root_value_def getitem_0 z split: option.splits pyval.splits list.splits)
qed

lemma get_root_id_dict:
  "get_root_id (PDict kvs) =
     (case map_of kvs ''value'' of
        None \<Rightarrow> ([''Error occurred when getting root id '' @ py_repr (PStr ''value'')], Inr PNone)
      | Some (PDict d) \<Rightarrow> ([''Error occurred when getting root id 0''], Inr PNone)
      | Some (PList []) \<Rightarrow> ([], Inl IndexError)
      | Some (PList (PDict d # xs)) \<Rightarrow>
          (case map_of d ''Id'' of
             None \<Rightarrow> ([''Error occurred when getting root id '' @ py_repr (PStr ''Id'')], Inr PNone)
           | Some v \<Rightarrow> ([], Inr v))
      | Some (PList (x # xs)) \<Rightarrow> ([], Inl TypeError)
      | Some (PStr []) \<Rightarrow> ([], Inl IndexError)
      | Some _ \<Rightarrow> ([], Inl TypeError))"
proof -
  have z: "str_int 0 = ''0''" by code_simp
  show ?thesis
    by (simp add: get_root_id_def getitem_0 getitem_Id z
        split: option.splits pyval.splits list.splits)
qed

subsection \<open>A path from the root replaces the path of the base\<close>

lemma split_on_nonempty: "split_on c s \<noteq> []"
  by (induction s) (auto split: list.splits)

lemma split_on_Cons:
  "split_on c (x # xs) =
     (if x = c then [] # split_on c xs
      else (x # hd (split_on c xs)) # tl (split_on c xs))"
  using split_on_nonempty [of c xs] by (cases "split_on c xs") auto

lemma join_Cons: "ys \<noteq> [] \<Longrightarrow> join sep (x # ys) = x @ sep @ join sep ys"
  by (cases ys) auto

lemma join_hd_tl:
  assumes "ys \<noteq> []"
  shows "join sep ((x # hd ys) # tl ys) = x # join sep ys"
proof (cases ys)
  case Nil
  with assms show ?thesis by simp
next
  case (Cons y zs)
  then show ?thesis by (cases zs) auto
qed

lemma join_split_on: "join [c] (split_on c s) = s"
proof (induction s)
  case Nil
  then show ?case by simp
next
  case (Cons x xs)
  show ?case
  proof (cases "x = c")
    case True
    then show ?thesis
      using Cons split_on_nonempty [of c xs] by (simp add: join_Cons)
  next
    case False
    then show ?thesis
      using Cons split_on_nonempty [of c xs] by (simp add: join_hd_tl del: split_on.simps add: split_on_Cons)
  qed
qed

lemma resolve_segments_plain:
  "''.'' \<notin> set segs \<Longrightarrow> ''..'' \<notin> set segs \<Longrightarrow> resolve_segments acc segs = acc @ segs"
  by (induction segs arbitrary: acc) auto

lemma remove_unsafe_id:
  "\<forall>c \<in> set s. (of_char c :: nat) \<notin> {9, 13, 10} \<Longrightarrow> remove_unsafe s = s"
  by (simp add: remove_unsafe_def)

lemma urlsplit_plain_path:
  assumes "take 1 rest \<noteq> ''/''"
    and "\<forall>c \<in> set rest. c \<notin> set ''#?;'' \<and> (of_char c :: nat) \<notin> {9, 13, 10}"
  shows "urlsplit ck (CHR ''/'' # rest) ''https'' = Inr (''https'', [], CHR ''/'' # rest, [], [])"
proof -
  have l: "lstrip_c0 (CHR ''/'' # rest) = CHR ''/'' # rest"
    by (simp add: lstrip_c0_def c0_control_or_space_def)
  have t: "remove_unsafe (CHR ''/'' # rest) = CHR ''/'' # rest"
    using assms(2) by (intro remove_unsafe_id) auto
  have s: "remove_unsafe (strip_c0 ''https'') = ''https''"
    by (simp add: remove_unsafe_def strip_c0_def lstrip_c0_def c0_control_or_space_def)
  have na: "\<not> ascii_alpha (CHR ''/'')"
    by (simp add: ascii_alpha_def ascii_lower_letters_def ascii_upper_letters_def)
  have nn: "(take 2 (CHR ''/'' # rest) = ''//'') = False"
    using assms(1) by (cases rest) auto
  have nh: "CHR ''#'' \<notin> set (CHR ''/'' # rest)" "CHR ''?'' \<notin> set (CHR ''/'' # rest)"
    using assms(2) by auto
  have hd: "hd (CHR ''/'' # rest) = CHR ''/''" by simp
  show ?thesis
    unfolding urlsplit_def l t s Let_def
    using na nh assms(1)
    by (simp add: checknetloc_def del: set_simps)
qed

lemma urlparse_plain_path:
  assumes "take 1 rest \<noteq> ''/''"
    and "\<forall>c \<in> set rest. c \<notin> set ''#?;'' \<and> (of_char c :: nat) \<notin> {9, 13, 10}"
  shows "urlparse ck (CHR ''/'' # rest) ''https'' =
           Inr (''https'', [], CHR ''/'' # rest, [], [], [])"
proof -
  have "CHR '';'' \<notin> set (CHR ''/'' # rest)"
    using assms(2) by auto
  then show ?thesis
    unfolding urlparse_def urlsplit_plain_path [OF assms]
    by (simp del: set_simps)
qed

lemma urlunparse_path:
  "host \<noteq> [] \<Longrightarrow>
     urlunparse (''https'', host, CHR ''/'' # rest, [], [], []) =
       ''https://'' @ host @ CHR ''/'' # rest"
  by (simp add: urlunparse_def urlunsplit_def)

lemma urljoin_absolute_path:
  assumes "urlparse ck base [] = Inr (''https'', host, bpath, bparams, bquery, bfragment)"
    and "base \<noteq> []" and "host \<noteq> []"
    and "take 1 rest \<noteq> ''/''"
    and "\<forall>c \<in> set rest. c \<notin> set ''#?;'' \<and> (of_char c :: nat) \<notin> {9, 13, 10}"
    and "''.'' \<notin> set (split_on (CHR ''/'') rest)"
    and "''..'' \<notin> set (split_on (CHR ''/'') rest)"
  shows "urljoin ck base (CHR ''/'' # rest) = Inr (''https://'' @ host @ CHR ''/'' # rest)"
proof -
  define segs where "segs = split_on (CHR ''/'') (CHR ''/'' # rest)"
  have segs: "segs = [] # split_on (CHR ''/'') rest"
    by (simp add: segs_def)
  have plain: "''.'' \<notin> set segs" "''..'' \<notin> set segs"
    using assms(6,7) by (auto simp add: segs)
  have res: "resolve_segments [] segs = segs"
    using resolve_segments_plain [OF plain, of "[]"] by simp
  have "last segs \<in> set segs"
    by (simp add: segs)
  with plain have lastseg: "last segs \<noteq> ''.''" "last segs \<noteq> ''..''"
    by auto
  have j: "join ''/'' segs = CHR ''/'' # rest"
    unfolding segs_def by (rule join_split_on)
  have rel: "''https'' \<in> set uses_relative" "''https'' \<in> set uses_netloc"
    by (simp_all add: uses_relative_def uses_netloc_def)
  note facts = res [unfolded segs_def] lastseg [unfolded segs_def] j [unfolded segs_def]
  show ?thesis
    using assms(2,3) rel
    by (simp add: urljoin_def assms(1) urlparse_plain_path [OF assms(4,5)] Let_def facts
        urlunparse_path del: set_simps split_on.simps)
qed

lemma hierarchy_base:
  "LOCAL_HIERARCHY_URL \<noteq> []"
  by (simp add: LOCAL_HIERARCHY_URL_def)

lemma spec_url_example:
  "urljoin ck ''https://host/'' ''/v1/organisation/X/hierarchy/location/nodes'' =
     Inr ''https://host/v1/organisation/X/hierarchy/location/nodes''"
  by code_simp

subsection \<open>Relative references and references with a scheme\<close>

lemma split_on_append:
  "split_on c (a @ c # b) = split_on c a @ split_on c b"
proof (induction a)
  case Nil
  then show ?case by simp
next
  case (Cons x xs)
  obtain y ys where sp: "split_on c xs = y # ys"
    using split_on_nonempty [of c xs] by (cases "split_on c xs") auto
  with Cons show ?case by simp
qed

lemma split_on_no_sep: "c \<notin> set s \<Longrightarrow> split_on c s = [s]"
  by (induction s) auto

lemma join_append:
  "xs \<noteq> [] \<Longrightarrow> ys \<noteq> [] \<Longrightarrow> join sep (xs @ ys) = join sep xs @ sep @ join sep ys"
proof (induction xs)
  case Nil
  then show ?case by simp
next
  case (Cons x xs)
  show ?case
  proof (cases xs)
    case Nil
    with Cons.prems show ?thesis by (simp add: join_Cons)
  next
    case (Cons z zs)
    with Cons.IH Cons.prems show ?thesis by (simp add: join_Cons)
  qed
qed

lemma filter_nonempty_id: "[] \<notin> set xs \<Longrightarrow> filter (\<lambda>s. s \<noteq> []) xs = xs"
  by (induction xs) auto

lemma filter_middle_plain:
  assumes "[] \<notin> set ds" and "[] \<notin> set (butlast rs)" and "rs \<noteq> []"
  shows "filter_middle (([] # ds) @ rs) = ([] # ds) @ rs"
    and "filter_middle (([] # ds) @ [[]] @ rs) = ([] # ds) @ rs"
proof -
  have f: "filter (\<lambda>s. s \<noteq> []) ds = ds" "filter (\<lambda>s. s \<noteq> []) (butlast rs) = butlast rs"
    using assms(1,2) by (simp_all add: filter_nonempty_id)
  have b: "butlast (ds @ rs) = ds @ butlast rs" "last (ds @ rs) = last rs"
    "butlast (ds @ [] # rs) = ds @ [] # butlast rs" "last (ds @ [] # rs) = last rs"
    using assms(3) by (simp_all add: butlast_append)
  have r: "butlast rs @ [last rs] = rs"
    using assms(3) by simp
  show "filter_middle (([] # ds) @ rs) = ([] # ds) @ rs"
    using assms(3) by (simp add: filter_middle_def b f r)
  show "filter_middle (([] # ds) @ [[]] @ rs) = ([] # ds) @ rs"
    using assms(3) by (simp add: filter_middle_def b f r)
qed

lemma urlparse_relative:
  assumes "rel \<noteq> []" and "hd rel \<noteq> CHR ''/''" and "32 < (of_char (hd rel) :: nat)"
    and "\<forall>c \<in> set rel. c \<notin> set ''#?;:'' \<and> (of_char c :: nat) \<notin> {9, 13, 10}"
  shows "urlparse ck rel ''https'' = Inr (''https'', [], rel, [], [], [])"
proof -
  from assms(1) obtain x xs where rel: "rel = x # xs" by (cases rel) auto
  have l: "lstrip_c0 rel = rel"
    using assms(3) by (simp add: rel lstrip_c0_def c0_control_or_space_def)
  have t: "remove_unsafe rel = rel"
    using assms(4) by (intro remove_unsafe_id) auto
  have s: "remove_unsafe (strip_c0 ''https'') = ''https''"
    by (simp add: remove_unsafe_def strip_c0_def lstrip_c0_def c0_control_or_space_def)
  have nc: "CHR '':'' \<notin> set rel" "CHR ''#'' \<notin> set rel" "CHR ''?'' \<notin> set rel"
    "CHR '';'' \<notin> set rel"
    using assms(4) by auto
  have nn: "take 2 rel \<noteq> ''//''"
    using assms(2) by (simp add: rel)
  have sp: "urlsplit ck rel ''https'' = Inr (''https'', [], rel, [], [])"
    unfolding urlsplit_def l t s Let_def
    using nc nn by (simp add: checknetloc_def del: set_simps)
  show ?thesis
    unfolding urlparse_def sp using nc by (simp del: set_simps)
qed

lemma urlunparse_path_only:
  assumes "host \<noteq> []" and "take 1 p = ''/''"
  shows "urlunparse (''https'', host, p, [], [], []) = ''https://'' @ host @ p"
  using assms by (cases p) (simp_all add: urlunparse_def urlunsplit_def)

lemma urljoin_relative_path:
  assumes parse: "urlparse ck base [] =
                    Inr (''https'', host, d @ CHR ''/'' # file, bparams, bquery, bfragment)"
    and nonempty: "base \<noteq> []" "host \<noteq> []"
    and nofile: "CHR ''/'' \<notin> set file"
    and d: "d = [] \<or> hd d = CHR ''/''"
    and dsegs: "[] \<notin> set (tl (split_on (CHR ''/'') d))"
      "''.'' \<notin> set (split_on (CHR ''/'') d)" "''..'' \<notin> set (split_on (CHR ''/'') d)"
    and rel: "rel \<noteq> []" "hd rel \<noteq> CHR ''/''" "32 < (of_char (hd rel) :: nat)"
      "\<forall>c \<in> set rel. c \<notin> set ''#?;:'' \<and> (of_char c :: nat) \<notin> {9, 13, 10}"
    and rsegs: "[] \<notin> set (butlast (split_on (CHR ''/'') rel))"
      "''.'' \<notin> set (split_on (CHR ''/'') rel)" "''..'' \<notin> set (split_on (CHR ''/'') rel)"
  shows "urljoin ck base rel = Inr (''https://'' @ host @ d @ CHR ''/'' # rel)"
proof -
  define ds where "ds = tl (split_on (CHR ''/'') d)"
  define rs where "rs = split_on (CHR ''/'') rel"
  have sd: "split_on (CHR ''/'') d = [] # ds"
  proof (cases d)
    case Nil
    then show ?thesis by (simp add: ds_def)
  next
    case (Cons x xs)
    with d have "x = CHR ''/''" by simp
    with Cons show ?thesis by (simp add: ds_def)
  qed
  have rs: "rs \<noteq> []"
    by (simp add: rs_def split_on_nonempty)
  have bs: "split_on (CHR ''/'') (d @ CHR ''/'' # file) = ([] # ds) @ [file]"
    by (simp add: split_on_append split_on_no_sep [OF nofile] sd)
  have dsn: "[] \<notin> set ds"
    using dsegs(1) by (simp add: ds_def)
  have rsn: "[] \<notin> set (butlast rs)"
    using rsegs(1) by (simp add: rs_def)
  note fm = filter_middle_plain [OF dsn rsn rs]
  have plain: "''.'' \<notin> set (([] # ds) @ rs)" "''..'' \<notin> set (([] # ds) @ rs)"
    using dsegs(2,3) rsegs(2,3) by (auto simp add: sd rs_def)
  have res: "resolve_segments [] (([] # ds) @ rs) = ([] # ds) @ rs"
    using resolve_segments_plain [OF plain, of "[]"] by simp
  have "last (([] # ds) @ rs) \<in> set (([] # ds) @ rs)"
    by (rule last_in_set) simp
  with plain have lastseg: "last (([] # ds) @ rs) \<noteq> ''.''" "last (([] # ds) @ rs) \<noteq> ''..''"
    by auto
  have jd: "join ''/'' ([] # ds) = d"
    using join_split_on [of "CHR ''/''" d] by (simp add: sd)
  have jr: "join ''/'' rs = rel"
    unfolding rs_def by (rule join_split_on)
  have j: "join ''/'' (([] # ds) @ rs) = d @ CHR ''/'' # rel"
    using join_append [of "[] # ds" rs "''/''"] rs by (simp add: jd jr)
  have t1: "take 1 (d @ CHR ''/'' # rel) = ''/''"
    using d by (cases d) auto
  have un: "urlunparse (''https'', host, d @ CHR ''/'' # rel, [], [], []) =
              ''https://'' @ host @ d @ CHR ''/'' # rel"
    by (rule urlunparse_path_only [OF nonempty(2) t1])
  have rel_parse: "urlparse ck rel ''https'' = Inr (''https'', [], rel, [], [], [])"
    by (rule urlparse_relative [OF rel])
  have nr: "take 1 rel \<noteq> ''/''"
    using rel(1,2) by (cases rel) auto
  have schemes: "''https'' \<in> set uses_relative" "''https'' \<in> set uses_netloc"
    by (simp_all add: uses_relative_def uses_netloc_def)
  have rsym: "split_on (CHR ''/'') rel = rs"
    by (simp add: rs_def)
  from lastseg rs have lastseg': "last (ds @ rs) \<noteq> ''.''" "last (ds @ rs) \<noteq> ''..''"
    "last rs \<noteq> ''.''" "last rs \<noteq> ''..''"
    by simp_all
  have "urljoin ck base rel =
          Inr (urlunparse (''https'', host, d @ CHR ''/'' # rel, [], [], []))"
  proof (cases "file = []")
    case True
    from fm(2) have fm': "filter_middle ([] # ds @ [] # rs) = [] # ds @ rs" by simp
    from res lastseg j
    have facts: "resolve_segments [] ([] # ds @ rs) = [] # ds @ rs"
      "last ([] # ds @ rs) \<noteq> ''.''" "last ([] # ds @ rs) \<noteq> ''..''"
      "join ''/'' ([] # ds @ rs) = d @ CHR ''/'' # rel"
      by simp_all
    from parse True
    have parse': "urlparse ck base [] = Inr (''https'', host, d @ ''/'', bparams, bquery, bfragment)"
      by simp
    from bs True have bs': "split_on (CHR ''/'') (d @ ''/'') = [] # ds @ [[]]"
      by simp
    show ?thesis
      using nonempty(1) rel(1) schemes nr
      by (simp add: urljoin_def parse' rel_parse bs' rsym Let_def fm' facts lastseg' rs
          del: set_simps split_on.simps resolve_segments.simps join.simps)
  next
    case False
    from fm(1) have fm': "filter_middle ([] # ds @ rs) = [] # ds @ rs" by simp
    from res lastseg j
    have facts: "resolve_segments [] ([] # ds @ rs) = [] # ds @ rs"
      "last ([] # ds @ rs) \<noteq> ''.''" "last ([] # ds @ rs) \<noteq> ''..''"
      "join ''/'' ([] # ds @ rs) = d @ CHR ''/'' # rel"
      by simp_all
    show ?thesis
      using nonempty(1) rel(1) schemes nr False
      by (simp add: urljoin_def parse rel_parse bs rsym Let_def fm' facts lastseg' rs butlast_append
          del: set_simps split_on.simps resolve_segments.simps join.simps)
  qed
  with un show ?thesis by simp
qed

lemma scheme_char_facts:
  assumes "c \<in> set scheme_chars"
  shows "c \<noteq> CHR '':''" and "(of_char c :: nat) \<notin> {9, 13, 10}"
    and "\<not> c0_control_or_space c"
  using assms
  by (auto simp add: scheme_chars_def ascii_lower_letters_def ascii_upper_letters_def
      c0_control_or_space_def)

lemma splitnetloc_subset: "set (fst (splitnetloc u)) \<subseteq> set u"
proof -
  have "set (takeWhile P (drop 2 u)) \<subseteq> set u" for P :: "char \<Rightarrow> bool"
    using set_takeWhileD [of _ P "drop 2 u"] in_set_dropD [of _ 2 u] by blast
  then show ?thesis
    by (simp add: splitnetloc_def Let_def)
qed

lemma urlsplit_scheme:
  assumes "sch \<noteq> []" and "ascii_alpha (hd sch)" and "\<forall>c \<in> set sch. c \<in> set scheme_chars"
    and "\<forall>c \<in> set rest. (of_char c :: nat) \<notin> {9, 13, 10} \<and> c \<notin> set ''[]''
           \<and> (of_char c :: nat) < 128"
  shows "\<exists>n p q f. urlsplit ck (sch @ CHR '':'' # rest) dflt = Inr (map ascii_lower sch, n, p, q, f)"
proof -
  let ?u = "sch @ CHR '':'' # rest"
  from assms(1) obtain x xs where sch: "sch = x # xs" by (cases sch) auto
  with assms(3) have "x \<in> set scheme_chars" by simp
  then have "\<not> c0_control_or_space x" by (rule scheme_char_facts)
  then have l: "lstrip_c0 ?u = ?u"
    by (simp add: sch lstrip_c0_def)
  have "\<forall>c \<in> set ?u. (of_char c :: nat) \<notin> {9, 13, 10}"
    using assms(3,4) scheme_char_facts(2) by auto
  then have t: "remove_unsafe ?u = ?u"
    by (rule remove_unsafe_id)
  have "\<forall>c \<in> set sch. c \<noteq> CHR '':''"
    using assms(3) scheme_char_facts(1) by blast
  then have pre: "takeWhile (\<lambda>x. x \<noteq> CHR '':'') ?u = sch"
    by (simp add: takeWhile_append2)
  have h: "hd ?u = hd sch"
    using assms(1) by simp
  have c: "CHR '':'' \<in> set ?u" by simp
  define netloc where "netloc = fst (splitnetloc rest)"
  have "set netloc \<subseteq> set rest"
    unfolding netloc_def by (rule splitnetloc_subset)
  with assms(4) have nb: "CHR ''['' \<notin> set netloc" "CHR '']'' \<notin> set netloc"
    and asc: "\<forall>c \<in> set netloc. (of_char c :: nat) < 128"
    by auto
  have cb: "check_brackets ck netloc = Inr ()"
    using nb by (simp add: check_brackets_def)
  have cn: "checknetloc ck netloc = Inr ()"
    using asc by (simp add: checknetloc_def)
  have cn0: "checknetloc ck [] = Inr ()"
    by (simp add: checknetloc_def)
  show ?thesis
    unfolding urlsplit_def l t Let_def pre h
    using c assms(1,2,3) cb cn cn0
    by (auto simp add: netloc_def split: prod.splits simp del: set_simps set_append)
qed

lemma urljoin_other_scheme:
  assumes "urlparse ck base [] = Inr (bscheme, bnetloc, bpath, bparams, bquery, bfragment)"
    and "base \<noteq> []"
    and "sch \<noteq> []" and "ascii_alpha (hd sch)" and "\<forall>c \<in> set sch. c \<in> set scheme_chars"
    and "map ascii_lower sch \<noteq> bscheme"
    and "\<forall>c \<in> set rest. (of_char c :: nat) \<notin> {9, 13, 10} \<and> c \<notin> set ''[]''
           \<and> (of_char c :: nat) < 128"
  shows "urljoin ck base (sch @ CHR '':'' # rest) = Inr (sch @ CHR '':'' # rest)"
proof -
  from urlsplit_scheme [OF assms(3,4,5,7), of ck bscheme]
  obtain n p q f where
    "urlsplit ck (sch @ CHR '':'' # rest) bscheme = Inr (map ascii_lower sch, n, p, q, f)"
    by blast
  then have "\<exists>p' pa. urlparse ck (sch @ CHR '':'' # rest) bscheme =
                      Inr (map ascii_lower sch, n, p', pa, q, f)"
    by (simp add: urlparse_def Let_def split: prod.splits)
  then obtain p' pa where
    "urlparse ck (sch @ CHR '':'' # rest) bscheme = Inr (map ascii_lower sch, n, p', pa, q, f)"
    by blast
  with assms(1,2,6) show ?thesis
    by (simp add: urljoin_def)
qed

lemma api_v2_slash_parse:
  "urlparse ck ''https://host/api/v2/'' [] = Inr (''https'', ''host'', ''/api/v2/'', [], [], [])"
  by code_simp

lemma api_v2_parse:
  "urlparse ck ''https://host/api/v2'' [] = Inr (''https'', ''host'', ''/api/v2'', [], [], [])"
  by code_simp

lemma make_api_call_urljoin_error:
  assumes "get_access_token e w = (Inr token, w1)"
    and "urljoin (checks e) LOCAL_HIERARCHY_URL uri = Inl err"
  shows "make_api_call e method uri payload uri_params w = (Inl err, w1)"
  using assms by (simp add: make_api_call_def)

subsection \<open>The examples of the standard\<close>

lemma rfc3986_normal:
  "list_all (resolves ck rfc3986_base) rfc3986_normal_examples"
  unfolding rfc3986_normal_examples_def rfc3986_base_def list.pred_inject resolves_def
    fst_conv snd_conv
  by (intro conjI TrueI; code_simp)

lemma rfc3986_abnormal:
  "list_all (resolves ck rfc3986_base) rfc3986_abnormal_examples"
  unfolding rfc3986_abnormal_examples_def rfc3986_base_def list.pred_inject resolves_def
    fst_conv snd_conv
  by (intro conjI TrueI; code_simp)

subsection \<open>The cache invariant\<close>

lemma token_cache_inv_cache:
  "cache w' = cache w \<Longrightarrow> token_cache_inv w' = token_cache_inv w"
  by (simp add: token_cache_inv_def)

lemma token_cache_inv_empty: "token_cache_inv empty_world"
  by (simp add: token_cache_inv_def empty_world_def)

lemma token_cache_inv_cache_set:
  "s \<noteq> [] \<Longrightarrow> token_cache_inv (cache_set ''access_token'' (PStr s) ttl w)"
  by (simp add: token_cache_inv_def cache_set_def)

lemma token_cache_inv_get_access_token:
  assumes "token_cache_inv w"
  shows "token_cache_inv (snd (get_access_token e w))"
proof (cases "get_access_token e w")
  case (Pair res w1)
  show ?thesis
  proof (cases res)
    case (Inl err)
    with Pair have "get_access_token e w = (Inl err, w1)" by simp
    then have "cache w1 = cache w"
      by (rule get_access_token_Inl_cache)
    then have "token_cache_inv w1 = token_cache_inv w"
      by (rule token_cache_inv_cache)
    with assms Pair show ?thesis by simp
  next
    case (Inr v)
    with Pair have r: "get_access_token e w = (Inr v, w1)" by simp
    from get_access_token_Inr [OF r]
    consider "w1 = w"
      | u s ttl where "v = PStr s" "s \<noteq> []"
          "w1 = cache_set ''access_token'' v ttl (w\<lparr>sent := sent w @ [auth_request e u]\<rparr>)"
      by blast
    then have "token_cache_inv w1"
    proof cases
      case 1
      with assms show ?thesis by simp
    next
      case 2
      then show ?thesis by (simp add: token_cache_inv_cache_set)
    qed
    with Pair show ?thesis by simp
  qed
qed

lemma make_api_call_cache:
  "cache (snd (make_api_call e method uri payload uri_params w)) =
     cache (snd (get_access_token e w))"
proof (cases "get_access_token e w")
  case (Pair res w1)
  show ?thesis
  proof (cases res)
    case (Inl err)
    with Pair show ?thesis by (simp add: make_api_call_def)
  next
    case (Inr token)
    show ?thesis
    proof (cases "urljoin (checks e) LOCAL_HIERARCHY_URL uri")
      case (Inl err)
      with Pair Inr show ?thesis by (simp add: make_api_call_def)
    next
      case u: (Inr u)
      show ?thesis
      proof (cases "http e (sent w1) (api_request method u payload uri_params token)")
        case (Inl err)
        with Pair Inr u show ?thesis
          by (simp add: make_api_call_def requests_request_def)
      next
        case r: (Inr r)
        from Pair Inr have "get_access_token e w = (Inr token, w1)" by simp
        from make_api_call_response [OF this u r] Pair show ?thesis by simp
      qed
    qed
  qed
qed

lemma token_cache_inv_make_api_call:
  assumes "token_cache_inv w"
  shows "token_cache_inv (snd (make_api_call e method uri payload uri_params w))"
proof -
  have "token_cache_inv (snd (make_api_call e method uri payload uri_params w)) =
          token_cache_inv (snd (get_access_token e w))"
    by (rule token_cache_inv_cache) (rule make_api_call_cache)
  with token_cache_inv_get_access_token [OF assms] show ?thesis by simp
qed

lemma token_present_truthy:
  assumes "token_cache_inv w" and "cache w ''access_token'' = Some (v, ttl)"
  shows "truthy (cache_get w ''access_token'')" and "cache_get w ''access_token'' = v"
  using assms by (simp_all add: token_cache_inv_def cache_get_def)

lemma token_absent_falsy:
  "cache w ''access_token'' = None \<Longrightarrow> \<not> truthy (cache_get w ''access_token'')"
  by (simp add: cache_get_def)

section \<open>Token caching\<close>

text \<open>
  C1. In every state of the token cache that the client can produce (\<open>token_cache_inv\<close>)
  and in which a token is present under the key, \<open>get_access_token\<close> returns that cached
  value and leaves the world as it is: no request is sent. Consequently, for two calls
  in sequence with no eviction in between, the first from a cache without a token and
  returning \<open>v1\<close>: the first call sends exactly one request, the authentication POST,
  the cache then holds \<open>v1\<close>, and the second call returns the same \<open>v1\<close> and sends
  nothing. Every call of \<open>get_access_token\<close> or of the dispatcher leaves the cache in
  such a state again.
\<close>

theorem get_access_token_cached:
  assumes "token_cache_inv w"
  shows "(cache w ''access_token'' = Some (v, ttl) \<longrightarrow>
            get_access_token e w = (Inr v, w))
       \<and> (cache w ''access_token'' = None \<and> get_access_token e w = (Inr v1, w1) \<longrightarrow>
            (\<exists>u. sent w1 = sent w @ [auth_request e u])
            \<and> (\<exists>ttl1. cache w1 ''access_token'' = Some (v1, ttl1))
            \<and> get_access_token e w1 = (Inr v1, w1))
       \<and> token_cache_inv (snd (get_access_token e w))
       \<and> token_cache_inv (snd (make_api_call e method uri payload uri_params w))"
proof -
  have hit: "get_access_token e w = (Inr v, w)" if p: "cache w ''access_token'' = Some (v, ttl)"
    using get_access_token_hit [OF token_present_truthy(1) [OF assms p]]
    by (simp only: token_present_truthy(2) [OF assms p])
  have sent: "\<exists>u. sent w1 = sent w @ [auth_request e u]"
    and entry: "\<exists>ttl1. cache w1 ''access_token'' = Some (v1, ttl1)"
    and again: "get_access_token e w1 = (Inr v1, w1)"
    if a: "cache w ''access_token'' = None \<and> get_access_token e w = (Inr v1, w1)"
  proof -
    from a have miss: "\<not> truthy (cache_get w ''access_token'')"
      by (simp add: token_absent_falsy)
    from a have r: "get_access_token e w = (Inr v1, w1)" by (rule conjunct2)
    from get_access_token_Inr [OF r] miss
    obtain u s ttl1 where s: "v1 = PStr s" "s \<noteq> []"
      and w1: "w1 = cache_set ''access_token'' v1 ttl1
                      (w\<lparr>sent := sent w @ [auth_request e u]\<rparr>)"
      by blast
    from w1 have "sent w1 = sent w @ [auth_request e u]"
      by (simp add: cache_set_def)
    then show "\<exists>u. sent w1 = sent w @ [auth_request e u]" ..
    from w1 have "cache w1 ''access_token'' = Some (v1, ttl1)"
      by (simp add: cache_set_def)
    then show "\<exists>ttl1. cache w1 ''access_token'' = Some (v1, ttl1)" ..
    from w1 have g: "cache_get w1 ''access_token'' = v1"
      by (simp add: cache_get_cache_set)
    with s have "truthy (cache_get w1 ''access_token'')" by simp
    from get_access_token_hit [OF this]
    show "get_access_token e w1 = (Inr v1, w1)" by (simp only: g)
  qed
  show ?thesis
  proof (intro conjI impI)
    assume "cache w ''access_token'' = Some (v, ttl)"
    then show "get_access_token e w = (Inr v, w)" by (rule hit)
  next
    assume a: "cache w ''access_token'' = None \<and> get_access_token e w = (Inr v1, w1)"
    from sent [OF a] show "\<exists>u. sent w1 = sent w @ [auth_request e u]" .
    from entry [OF a] show "\<exists>ttl1. cache w1 ''access_token'' = Some (v1, ttl1)" .
    from again [OF a] show "get_access_token e w1 = (Inr v1, w1)" .
  next
    show "token_cache_inv (snd (get_access_token e w))"
      by (rule token_cache_inv_get_access_token [OF assms])
  next
    show "token_cache_inv (snd (make_api_call e method uri payload uri_params w))"
      by (rule token_cache_inv_make_api_call [OF assms])
  qed
qed

text \<open>C1 at the example: from the empty cache the token server's token is fetched with one
  POST and cached, and the next call returns it from the cache.\<close>

theorem get_access_token_cached_witness:
  "token_cache_inv empty_world
   \<and> cache empty_world ''access_token'' = None
   \<and> get_access_token (example_env token_server) empty_world =
       (Inr (PStr ''Bearer abc123''), warm_world)
   \<and> sent warm_world = sent empty_world @ [example_auth_request]
   \<and> token_cache_inv warm_world
   \<and> cache warm_world ''access_token'' = Some (PStr ''Bearer abc123'', PInt 3600)
   \<and> get_access_token (example_env token_server) warm_world =
       (Inr (PStr ''Bearer abc123''), warm_world)"
proof -
  have none: "cache empty_world ''access_token'' = None"
    by (simp add: empty_world_def)
  have entry: "cache warm_world ''access_token'' = Some (PStr ''Bearer abc123'', PInt 3600)"
    by (simp add: warm_world_def)
  have s: "sent warm_world = sent empty_world @ [example_auth_request]"
    by (simp add: warm_world_def empty_world_def)
  note first = get_access_token_cached [OF token_cache_inv_empty,
      where e = "example_env token_server" and ?v1.0 = "PStr ''Bearer abc123''"
        and ?w1.0 = warm_world]
  from first [THEN conjunct2, THEN conjunct2, THEN conjunct1]
  have inv: "token_cache_inv warm_world"
    by (simp only: get_access_token_example snd_conv)
  note second = get_access_token_cached [OF inv,
      where e = "example_env token_server" and v = "PStr ''Bearer abc123''" and ttl = "PInt 3600"]
  from second [THEN conjunct1, THEN mp, OF entry]
  have again: "get_access_token (example_env token_server) warm_world =
          (Inr (PStr ''Bearer abc123''), warm_world)" .
  from token_cache_inv_empty none get_access_token_example s inv entry again
  show ?thesis by (intro conjI)
qed

section \<open>Parsing the authentication response\<close>

text \<open>
  C2, as stated, at the response with status 200 and the JSON body \<^verbatim>\<open>{}\<close>, from the empty
  cache: all three fields are absent, and the result is not absent or empty. Each
  \<^verbatim>\<open>.get\<close> gives \<^verbatim>\<open>None\<close>, the f-string prints it, and the call returns the string
  \<^verbatim>\<open>None None\<close> and caches it with the timeout \<^verbatim>\<open>None\<close>.
\<close>

theorem get_access_token_missing_fields_counterexample:
  "status_code empty_body_response = 200
   \<and> json_body empty_body_response = Some (PDict [])
   \<and> fst (get_access_token (example_env (constant_server empty_body_response)) empty_world)
       = Inr (PStr ''None None'')
   \<and> fst (get_access_token (example_env (constant_server empty_body_response)) empty_world)
       \<noteq> Inr PNone
   \<and> cache (snd (get_access_token (example_env (constant_server empty_body_response))
         empty_world)) ''access_token'' = Some (PStr ''None None'', PNone)"
  by (simp add: get_access_token_empty_body) (simp add: empty_body_response_def)

text \<open>
  C2, amended. For every authentication response whose status is successful and whose
  JSON body is an object in which one or more of \<^verbatim>\<open>token_type\<close>, \<^verbatim>\<open>access_token\<close>,
  \<^verbatim>\<open>expires_in\<close> is absent, \<open>get_access_token\<close> does not raise: it returns the string made
  of the token type, a space and the token, with the text \<^verbatim>\<open>None\<close> in the place of an
  absent field, and stores that string in the cache, with the timeout \<^verbatim>\<open>None\<close> when
  \<^verbatim>\<open>expires_in\<close> is absent. The result is a string with a space in it, never an absent or
  empty one.
\<close>

theorem get_access_token_missing_fields:
  assumes "\<not> truthy (cache_get w ''access_token'')"
    and "urljoin (checks e) (AUTH_URL e) ''/oauth/token'' = Inr u"
    and "http e (sent w) (auth_request e u) = Inr r"
    and "\<not> (400 \<le> status_code r \<and> status_code r < 600)"
    and "json_body r = Some (PDict kvs)"
    and "map_of kvs ''token_type'' = None \<or> map_of kvs ''access_token'' = None
           \<or> map_of kvs ''expires_in'' = None"
  shows "get_access_token e w =
           (Inr (PStr ((case map_of kvs ''token_type'' of None \<Rightarrow> ''None'' | Some T \<Rightarrow> py_str T)
                   @ '' '' @
                   (case map_of kvs ''access_token'' of None \<Rightarrow> ''None'' | Some A \<Rightarrow> py_str A))),
            w\<lparr>sent := sent w @ [auth_request e u],
              cache := (cache w)(''access_token'' \<mapsto>
                (PStr ((case map_of kvs ''token_type'' of None \<Rightarrow> ''None'' | Some T \<Rightarrow> py_str T)
                   @ '' '' @
                   (case map_of kvs ''access_token'' of None \<Rightarrow> ''None'' | Some A \<Rightarrow> py_str A)),
                 (case map_of kvs ''expires_in'' of None \<Rightarrow> PNone | Some E \<Rightarrow> E)))\<rparr>)"
  using assms(4)
  by (simp add: get_access_token_miss [OF assms(1-3)] store_token_dict [OF assms(4,5)]
      cache_set_def py_str_def split: option.splits)

text \<open>C2, amended, at the response with status 200 and the body \<^verbatim>\<open>{}\<close>.\<close>

theorem get_access_token_missing_fields_witness:
  "\<not> truthy (cache_get empty_world ''access_token'')
   \<and> urljoin (checks (example_env (constant_server empty_body_response)))
        (AUTH_URL (example_env (constant_server empty_body_response))) ''/oauth/token''
       = Inr ''https://auth.example.com/oauth/token''
   \<and> json_body empty_body_response = Some (PDict [])
   \<and> map_of ([] :: (string \<times> pyval) list) ''token_type'' = None
   \<and> get_access_token (example_env (constant_server empty_body_response)) empty_world =
       (Inr (PStr ''None None''),
        \<lparr>cache = [''access_token'' \<mapsto> (PStr ''None None'', PNone)],
         sent = [example_auth_request], stdout = []\<rparr>)"
proof -
  have miss: "\<not> truthy (cache_get empty_world ''access_token'')"
    by (simp add: cache_get_def empty_world_def)
  have url: "urljoin (checks (example_env (constant_server empty_body_response)))
        (AUTH_URL (example_env (constant_server empty_body_response))) ''/oauth/token''
       = Inr ''https://auth.example.com/oauth/token''"
    by (simp add: example_env_def auth_url_example)
  have net: "http (example_env (constant_server empty_body_response)) (sent empty_world)
        (auth_request (example_env (constant_server empty_body_response))
           ''https://auth.example.com/oauth/token'') = Inr empty_body_response"
    by (simp add: example_env_def constant_server_def)
  have st: "\<not> (400 \<le> status_code empty_body_response \<and> status_code empty_body_response < 600)"
    by (simp add: empty_body_response_def)
  have body: "json_body empty_body_response = Some (PDict [])"
    by (simp add: empty_body_response_def)
  have absent: "map_of ([] :: (string \<times> pyval) list) ''token_type'' = None
      \<or> map_of ([] :: (string \<times> pyval) list) ''access_token'' = None
      \<or> map_of ([] :: (string \<times> pyval) list) ''expires_in'' = None"
    by simp
  from get_access_token_missing_fields [OF miss url net st body absent]
  have "get_access_token (example_env (constant_server empty_body_response)) empty_world =
       (Inr (PStr ''None None''),
        \<lparr>cache = [''access_token'' \<mapsto> (PStr ''None None'', PNone)],
         sent = [example_auth_request], stdout = []\<rparr>)"
    by (simp add: empty_world_def auth_request_example)
  with miss url body show ?thesis by simp
qed

text \<open>
  C3. From a cache without a token, for every authentication response whose status is
  successful and whose JSON body holds \<^verbatim>\<open>token_type\<close> \<open>T\<close>, \<^verbatim>\<open>access_token\<close> \<open>A\<close> and
  \<^verbatim>\<open>expires_in\<close> \<open>E\<close>, \<open>get_access_token\<close> returns the string made of the text of \<open>T\<close>, a
  space and the text of \<open>A\<close> (the text of a string is the string itself, \<open>py_str_PStr\<close>),
  and the world it leaves differs from the one before by the request sent and by the
  cache entry: exactly that string, with the time-to-live \<open>E\<close>.
\<close>

theorem get_access_token_stores_token:
  assumes "\<not> truthy (cache_get w ''access_token'')"
    and "urljoin (checks e) (AUTH_URL e) ''/oauth/token'' = Inr u"
    and "http e (sent w) (auth_request e u) = Inr r"
    and "\<not> (400 \<le> status_code r \<and> status_code r < 600)"
    and "json_body r = Some (PDict kvs)"
    and "map_of kvs ''token_type'' = Some T"
    and "map_of kvs ''access_token'' = Some A"
    and "map_of kvs ''expires_in'' = Some E"
  shows "get_access_token e w =
           (Inr (PStr (py_str T @ '' '' @ py_str A)),
            w\<lparr>sent := sent w @ [auth_request e u],
              cache := (cache w)(''access_token'' \<mapsto>
                          (PStr (py_str T @ '' '' @ py_str A), E))\<rparr>)"
  using assms(4,6-8)
  by (simp add: get_access_token_miss [OF assms(1-3)] store_token_dict [OF assms(4,5)]
      cache_set_def)

text \<open>C3 at the example: the token server answers with \<^verbatim>\<open>Bearer\<close>, \<^verbatim>\<open>abc123\<close> and 3600.\<close>

theorem get_access_token_stores_token_witness:
  "\<not> truthy (cache_get empty_world ''access_token'')
   \<and> status_code token_response = 200
   \<and> json_body token_response =
       Some (PDict [(''token_type'', PStr ''Bearer''), (''access_token'', PStr ''abc123''),
                    (''expires_in'', PInt 3600)])
   \<and> get_access_token (example_env token_server) empty_world =
       (Inr (PStr ''Bearer abc123''),
        \<lparr>cache = [''access_token'' \<mapsto> (PStr ''Bearer abc123'', PInt 3600)],
         sent = [example_auth_request], stdout = []\<rparr>)"
proof -
  have miss: "\<not> truthy (cache_get empty_world ''access_token'')"
    by (simp add: cache_get_def empty_world_def)
  have url: "urljoin (checks (example_env token_server)) (AUTH_URL (example_env token_server))
        ''/oauth/token'' = Inr ''https://auth.example.com/oauth/token''"
    by (simp add: example_env_def auth_url_example)
  have net: "http (example_env token_server) (sent empty_world)
        (auth_request (example_env token_server) ''https://auth.example.com/oauth/token'')
       = Inr token_response"
    by (simp add: example_env_def token_server_def)
  have st: "\<not> (400 \<le> status_code token_response \<and> status_code token_response < 600)"
    and code: "status_code token_response = 200"
    by (simp_all add: token_response_def)
  have body: "json_body token_response =
       Some (PDict [(''token_type'', PStr ''Bearer''), (''access_token'', PStr ''abc123''),
                    (''expires_in'', PInt 3600)])"
    by (simp add: token_response_def)
  from get_access_token_stores_token [OF miss url net st body,
      of "PStr ''Bearer''" "PStr ''abc123''" "PInt 3600"]
  have "get_access_token (example_env token_server) empty_world =
       (Inr (PStr ''Bearer abc123''),
        \<lparr>cache = [''access_token'' \<mapsto> (PStr ''Bearer abc123'', PInt 3600)],
         sent = [example_auth_request], stdout = []\<rparr>)"
    by (simp add: empty_world_def auth_request_example py_str_PStr)
  with miss code body show ?thesis by simp
qed

section \<open>Authentication failure\<close>

text \<open>
  C9. From a cache without a token, for every authentication response whose status is
  not successful (400 to 599, where \<^verbatim>\<open>raise_for_status\<close> raises), \<open>get_access_token\<close>
  raises the \<open>HTTPError\<close> of that response, and the world it leaves differs from the one
  before only by the request sent: the cache is as it was. More generally, whenever the
  call raises, whatever the exception, the cache is as it was: it is written only on
  the path that returns.
\<close>

theorem get_access_token_failure_keeps_cache:
  assumes "\<not> truthy (cache_get w ''access_token'')"
    and "urljoin (checks e) (AUTH_URL e) ''/oauth/token'' = Inr u"
    and "http e (sent w) (auth_request e u) = Inr r"
  shows "(400 \<le> status_code r \<and> status_code r < 600 \<longrightarrow>
            get_access_token e w =
              (Inl (HTTPError r), w\<lparr>sent := sent w @ [auth_request e u]\<rparr>)
            \<and> cache (snd (get_access_token e w)) = cache w)
         \<and> (\<forall>err w1. get_access_token e w = (Inl err, w1) \<longrightarrow> cache w1 = cache w)"
proof -
  have "get_access_token e w =
      (Inl (HTTPError r), w\<lparr>sent := sent w @ [auth_request e u]\<rparr>)
      \<and> cache (snd (get_access_token e w)) = cache w"
    if "400 \<le> status_code r \<and> status_code r < 600"
    using that by (simp add: get_access_token_miss [OF assms])
  moreover have "cache w1 = cache w" if "get_access_token e w = (Inl err, w1)" for err w1
    using that by (rule get_access_token_Inl_cache)
  ultimately show ?thesis by blast
qed

text \<open>C9 at the example: the token endpoint answers 401 and the cache stays empty.\<close>

theorem get_access_token_failure_keeps_cache_witness:
  "\<not> truthy (cache_get empty_world ''access_token'')
   \<and> status_code unauthorized = 401
   \<and> get_access_token (example_env (constant_server unauthorized)) empty_world =
       (Inl (HTTPError unauthorized),
        \<lparr>cache = Map.empty, sent = [example_auth_request], stdout = []\<rparr>)"
proof -
  have miss: "\<not> truthy (cache_get empty_world ''access_token'')"
    by (simp add: cache_get_def empty_world_def)
  have url: "urljoin (checks (example_env (constant_server unauthorized)))
        (AUTH_URL (example_env (constant_server unauthorized))) ''/oauth/token''
       = Inr ''https://auth.example.com/oauth/token''"
    by (simp add: example_env_def auth_url_example)
  have net: "http (example_env (constant_server unauthorized)) (sent empty_world)
        (auth_request (example_env (constant_server unauthorized))
           ''https://auth.example.com/oauth/token'') = Inr unauthorized"
    by (simp add: example_env_def constant_server_def)
  have code: "status_code unauthorized = 401"
    by (simp add: unauthorized_def)
  from get_access_token_failure_keeps_cache [OF miss url net] code
  have "get_access_token (example_env (constant_server unauthorized)) empty_world =
       (Inl (HTTPError unauthorized),
        \<lparr>cache = Map.empty, sent = [example_auth_request], stdout = []\<rparr>)"
    by (simp add: empty_world_def auth_request_example)
  with miss code show ?thesis by simp
qed

section \<open>Failure of a hierarchy request\<close>

text \<open>
  C4. Once the token has been obtained, for every call of \<open>make_api_call\<close> whose request
  gets a response \<open>r\<close>: if the status of \<open>r\<close> is 400 to 599 the call raises the
  \<open>HTTPError\<close> that carries \<open>r\<close> (its status code and body) and exactly one request has
  been sent, so nothing is retried; otherwise the call returns \<open>r\<close> itself, having sent
  that one request and printed its two lines. And when the service answers every request
  with a response \<open>r'\<close> of status 400 to 599, each of the ten node operations raises this
  same \<open>HTTPError\<close> after exactly one request.
\<close>

theorem make_api_call_http_error:
  assumes "get_access_token e w = (Inr token, w1)"
  shows
    "(urljoin (checks e) LOCAL_HIERARCHY_URL uri = Inr u
        \<and> http e (sent w1) (api_request method u payload uri_params token) = Inr r \<longrightarrow>
      make_api_call e method uri payload uri_params w =
        (if 400 \<le> status_code r \<and> status_code r < 600
         then (Inl (HTTPError r),
               w1\<lparr>sent := sent w1 @ [api_request method u payload uri_params token]\<rparr>)
         else (Inr r,
               w1\<lparr>sent := sent w1 @ [api_request method u payload uri_params token],
                  stdout := stdout w1 @
                    [''Positive Response - True'',
                     ''Hierarchy response status code - '' @ str_int (status_code r)]\<rparr>)))
     \<and> ((\<forall>rq. http e (sent w1) rq = Inr r') \<and> 400 \<le> status_code r' \<and> status_code r' < 600 \<longrightarrow>
          (\<exists>rq. insert_root_companyunit_node e w =
                  (Inl (HTTPError r'), w1\<lparr>sent := sent w1 @ [rq]\<rparr>))
        \<and> (\<exists>rq. insert_company_unit_division_node e w =
                  (Inl (HTTPError r'), w1\<lparr>sent := sent w1 @ [rq]\<rparr>))
        \<and> (\<exists>rq. insert_company_unit_site_node e w =
                  (Inl (HTTPError r'), w1\<lparr>sent := sent w1 @ [rq]\<rparr>))
        \<and> (\<exists>rq. get_root_companyunit_node e w =
                  (Inl (HTTPError r'), w1\<lparr>sent := sent w1 @ [rq]\<rparr>))
        \<and> (\<exists>rq. get_company_unit_node e nodeId w =
                  (Inl (HTTPError r'), w1\<lparr>sent := sent w1 @ [rq]\<rparr>))
        \<and> (\<exists>rq. get_divisions_company_unit_nodes e w =
                  (Inl (HTTPError r'), w1\<lparr>sent := sent w1 @ [rq]\<rparr>))
        \<and> (\<exists>rq. get_sites_company_unit_nodes e w =
                  (Inl (HTTPError r'), w1\<lparr>sent := sent w1 @ [rq]\<rparr>))
        \<and> (\<exists>rq. get_company_unit_nodes e w =
                  (Inl (HTTPError r'), w1\<lparr>sent := sent w1 @ [rq]\<rparr>))
        \<and> (\<exists>rq. archive_company_unit_node e nodeId w =
                  (Inl (HTTPError r'), w1\<lparr>sent := sent w1 @ [rq]\<rparr>))
        \<and> (\<exists>rq. unarchive_company_unit_node e nodeId w =
                  (Inl (HTTPError r'), w1\<lparr>sent := sent w1 @ [rq]\<rparr>)))"
proof -
  have first: "make_api_call e method uri payload uri_params w =
        (if 400 \<le> status_code r \<and> status_code r < 600
         then (Inl (HTTPError r),
               w1\<lparr>sent := sent w1 @ [api_request method u payload uri_params token]\<rparr>)
         else (Inr r,
               w1\<lparr>sent := sent w1 @ [api_request method u payload uri_params token],
                  stdout := stdout w1 @
                    [''Positive Response - True'',
                     ''Hierarchy response status code - '' @ str_int (status_code r)]\<rparr>))"
    if "urljoin (checks e) LOCAL_HIERARCHY_URL uri = Inr u
        \<and> http e (sent w1) (api_request method u payload uri_params token) = Inr r"
    using that make_api_call_response [OF assms] by blast
  have ops: "\<exists>rq. make_api_call e m (hierarchy_uri @ rest) p q w =
                 (Inl (HTTPError r'), w1\<lparr>sent := sent w1 @ [rq]\<rparr>)"
    if "(\<forall>rq. http e (sent w1) rq = Inr r') \<and> 400 \<le> status_code r' \<and> status_code r' < 600"
    for m rest p q
    using that make_api_call_raises [OF assms] by blast
  have root: "\<exists>rq. make_api_call e m hierarchy_uri p q w =
                 (Inl (HTTPError r'), w1\<lparr>sent := sent w1 @ [rq]\<rparr>)"
    if "(\<forall>rq. http e (sent w1) rq = Inr r') \<and> 400 \<le> status_code r' \<and> status_code r' < 600"
    for m p q
    using ops [OF that, of m "[]" p q] by simp
  have units: "\<exists>rq. discard (make_api_call e m (hierarchy_uri @ rest) p q w) =
                 (Inl (HTTPError r'), w1\<lparr>sent := sent w1 @ [rq]\<rparr>)"
    if "(\<forall>rq. http e (sent w1) rq = Inr r') \<and> 400 \<le> status_code r' \<and> status_code r' < 600"
    for m rest p q
    using ops [OF that, of m rest p q] by (auto simp add: discard_Inl)
  have unit_root: "\<exists>rq. discard (make_api_call e m hierarchy_uri p q w) =
                 (Inl (HTTPError r'), w1\<lparr>sent := sent w1 @ [rq]\<rparr>)"
    if "(\<forall>rq. http e (sent w1) rq = Inr r') \<and> 400 \<le> status_code r' \<and> status_code r' < 600"
    for m p q
    using units [OF that, of m "[]" p q] by simp
  show ?thesis
    unfolding insert_root_companyunit_node_def insert_company_unit_division_node_def
      insert_company_unit_site_node_def get_root_companyunit_node_def
      get_company_unit_node_def get_divisions_company_unit_nodes_def
      get_sites_company_unit_nodes_def get_company_unit_nodes_def
      archive_company_unit_node_def unarchive_company_unit_node_def Let_def
    using first ops units unit_root by blast
qed


text \<open>C4 at the example, with the token in the cache: a service that answers 401, and one
  that answers 200.\<close>

theorem make_api_call_http_error_witness:
  "get_access_token (example_env (constant_server unauthorized)) warm_world =
     (Inr (PStr ''Bearer abc123''), warm_world)
   \<and> status_code unauthorized = 401
   \<and> make_api_call (example_env (constant_server unauthorized)) ''GET''
        (hierarchy_uri @ ''/nodes'') (Dict []) [] warm_world =
       (Inl (HTTPError unauthorized),
        warm_world\<lparr>sent := sent warm_world @
          [api_request ''GET'' nodes_collection_url (Dict []) [] (PStr ''Bearer abc123'')]\<rparr>)
   \<and> make_api_call (example_env (constant_server ok_response)) ''GET''
        (hierarchy_uri @ ''/nodes'') (Dict []) [] warm_world =
       (Inr ok_response,
        warm_world\<lparr>sent := sent warm_world @
          [api_request ''GET'' nodes_collection_url (Dict []) [] (PStr ''Bearer abc123'')],
          stdout := [''Positive Response - True'', ''Hierarchy response status code - 200'']\<rparr>)
   \<and> (\<exists>rq. archive_company_unit_node (example_env (constant_server unauthorized)) ''n1''
               warm_world =
             (Inl (HTTPError unauthorized), warm_world\<lparr>sent := sent warm_world @ [rq]\<rparr>))"
proof -
  let ?e = "example_env (constant_server unauthorized)"
  let ?e' = "example_env (constant_server ok_response)"
  let ?rq = "api_request ''GET'' nodes_collection_url (Dict []) [] (PStr ''Bearer abc123'')"
  have code: "status_code unauthorized = 401" "status_code ok_response = 200"
    by (simp_all add: unauthorized_def ok_response_def)
  have url: "urljoin (checks ?e) LOCAL_HIERARCHY_URL (hierarchy_uri @ ''/nodes'') =
               Inr nodes_collection_url"
    and url': "urljoin (checks ?e') LOCAL_HIERARCHY_URL (hierarchy_uri @ ''/nodes'') =
               Inr nodes_collection_url"
    by (rule nodes_url_example)+
  have net: "http ?e (sent warm_world) ?rq = Inr unauthorized"
    and net': "http ?e' (sent warm_world) ?rq = Inr ok_response"
    and all: "\<forall>rq. http ?e (sent warm_world) rq = Inr unauthorized"
    by (simp_all add: example_env_def constant_server_def)
  note inst = make_api_call_http_error [OF warm_world_hit [of ?e]]
  note inst' = make_api_call_http_error [OF warm_world_hit [of ?e']]
  from inst [of "hierarchy_uri @ ''/nodes''" nodes_collection_url "''GET''" "Dict []" "[]"
      unauthorized] url net code
  have a: "make_api_call ?e ''GET'' (hierarchy_uri @ ''/nodes'') (Dict []) [] warm_world =
       (Inl (HTTPError unauthorized), warm_world\<lparr>sent := sent warm_world @ [?rq]\<rparr>)"
    by simp
  from inst' [of "hierarchy_uri @ ''/nodes''" nodes_collection_url "''GET''" "Dict []" "[]"
      ok_response] url' net' code
  have b: "make_api_call ?e' ''GET'' (hierarchy_uri @ ''/nodes'') (Dict []) [] warm_world =
       (Inr ok_response,
        warm_world\<lparr>sent := sent warm_world @ [?rq],
          stdout := [''Positive Response - True'', ''Hierarchy response status code - 200'']\<rparr>)"
    by (simp add: str_int_200 warm_world_def)
  from inst [of _ _ _ _ _ _ unauthorized "''n1''"] all code
  have c: "\<exists>rq. archive_company_unit_node ?e ''n1'' warm_world =
             (Inl (HTTPError unauthorized), warm_world\<lparr>sent := sent warm_world @ [rq]\<rparr>)"
    by simp
  from a b c code warm_world_hit [of ?e] show ?thesis by simp
qed

section \<open>Extraction helpers on the empty envelope\<close>

text \<open>
  C5. On the empty envelope \<^verbatim>\<open>{}\<close>, \<open>get_all_node_values\<close> (\<^verbatim>\<open>_get_all_node_values\<close>) raises
  the \<open>KeyError\<close> of the key \<^verbatim>\<open>value\<close>, whereas \<open>get_root_value\<close> (\<^verbatim>\<open>_get_root_value\<close>)
  raises nothing: it prints one line, the message with the key, and returns \<^verbatim>\<open>None\<close>.
\<close>

theorem extraction_asymmetry:
  "get_all_node_values (PDict []) = Inl (KeyError (PStr ''value''))
   \<and> get_root_value (PDict []) =
       ([''Error occurred when getting root payload value '' @ [squote] @ ''value'' @ [squote]],
        Inr PNone)"
  by code_simp

section \<open>Short code of the site node\<close>

text \<open>
  C6, evaluated at the call \<^verbatim>\<open>insert_company_unit_site_node()\<close> with a token in the cache.
  The request goes to \<^verbatim>\<open>/nodes/eedinburgh-office\<close> and carries the name
  \<^verbatim>\<open>Edinburgh Office\<close>, whose lower-cased, hyphenated form is \<^verbatim>\<open>edinburgh-office\<close>: the
  literal of line 122 has one letter too many. The division node next to it has the
  name \<^verbatim>\<open>Edinburgh\<close> and its request goes to \<^verbatim>\<open>/nodes/edinburgh\<close>, the lower-cased form of
  its name.
\<close>

theorem insert_site_short_code:
  "req_url (last (sent (snd (insert_company_unit_site_node
       (example_env (constant_server ok_response)) warm_world)))) =
     nodes_collection_url @ ''/eedinburgh-office''
   \<and> req_data (last (sent (snd (insert_company_unit_site_node
       (example_env (constant_server ok_response)) warm_world)))) =
     Json_dumps (PDict [(''name'', PStr ''Edinburgh Office''),
                        (''parentShortCode'', PStr ''edinburgh''),
                        (''parentId'', PStr ''caa8aae2-ab54-4f0d-a580-28e1ce49cc60''),
                        (''archived'', PBool False),
                        (''nodeType'', PStr ''site'')])
   \<and> spec_short_code ''Edinburgh Office'' = ''edinburgh-office''
   \<and> req_url (last (sent (snd (insert_company_unit_site_node
       (example_env (constant_server ok_response)) warm_world)))) \<noteq>
     nodes_collection_url @ ''/'' @ spec_short_code ''Edinburgh Office''
   \<and> req_url (last (sent (snd (insert_company_unit_division_node
       (example_env (constant_server ok_response)) warm_world)))) =
     nodes_collection_url @ ''/'' @ spec_short_code ''Edinburgh''"
proof -
  have sc: "spec_short_code ''Edinburgh Office'' = ''edinburgh-office''"
    "spec_short_code ''Edinburgh'' = ''edinburgh''"
    by code_simp+
  have snd_discard: "snd (discard res) = snd res" for res
    by (cases res) (simp add: discard_def split: sum.splits)
  show ?thesis
    by (simp add: insert_company_unit_site_node_def insert_company_unit_division_node_def
        snd_discard sc make_api_call_sent [OF warm_world_hit site_url]
        make_api_call_sent [OF warm_world_hit division_url] api_request_def)
qed

section \<open>Filter of the division query\<close>

text \<open>
  C7, as stated, at the call \<^verbatim>\<open>get_divisions_company_unit_nodes()\<close> with a token in the
  cache: the value of \<^verbatim>\<open>$filter\<close> in the request is \<^verbatim>\<open>NodeType eq 'division'\<close>, with a
  capital N, and not \<^verbatim>\<open>nodeType eq 'division'\<close>.
\<close>

theorem get_divisions_filter_counterexample:
  "req_params (last (sent (snd (get_divisions_company_unit_nodes
       (example_env (constant_server ok_response)) warm_world)))) =
     [(''$filter'', ''NodeType eq 'division'' @ [squote])]
   \<and> req_params (last (sent (snd (get_divisions_company_unit_nodes
       (example_env (constant_server ok_response)) warm_world)))) \<noteq>
     [(''$filter'', ''nodeType eq 'division'' @ [squote])]"
  by (simp add: get_divisions_company_unit_nodes_def
      make_api_call_sent [OF warm_world_hit nodes_url_example] api_request_def)

text \<open>
  C7, amended. Once the token has been obtained, \<open>get_divisions_company_unit_nodes\<close>
  sends exactly one request: a GET to the node collection of the hierarchy service with
  the one query parameter \<^verbatim>\<open>$filter\<close>, whose value is the equality predicate
  \<^verbatim>\<open>NodeType eq 'division'\<close>.
\<close>

theorem get_divisions_filter:
  assumes "get_access_token e w = (Inr token, w1)"
  shows "\<exists>rq. sent (snd (get_divisions_company_unit_nodes e w)) = sent w1 @ [rq]
           \<and> req_method rq = ''GET''
           \<and> req_url rq = nodes_collection_url
           \<and> req_params rq = [(''$filter'', ''NodeType eq 'division'' @ [squote])]"
  by (simp add: get_divisions_company_unit_nodes_def
      make_api_call_sent [OF assms nodes_url_example] api_request_def)

text \<open>C7, amended, at the example, with the token in the cache.\<close>

theorem get_divisions_filter_witness:
  "get_access_token (example_env (constant_server ok_response)) warm_world =
     (Inr (PStr ''Bearer abc123''), warm_world)
   \<and> (\<exists>rq. sent (snd (get_divisions_company_unit_nodes
                (example_env (constant_server ok_response)) warm_world)) =
              sent warm_world @ [rq]
           \<and> req_method rq = ''GET''
           \<and> req_url rq = nodes_collection_url
           \<and> req_params rq = [(''$filter'', ''NodeType eq 'division'' @ [squote])])"
  using get_divisions_filter [OF warm_world_hit [of "example_env (constant_server ok_response)"]]
    warm_world_hit [of "example_env (constant_server ok_response)"]
  by simp

section \<open>Extraction helpers on other envelopes\<close>

text \<open>
  C10, as stated, at the envelope \<^verbatim>\<open>{"value": {}}\<close>: the key \<^verbatim>\<open>value\<close> is present, and both
  helpers still print their message and return \<^verbatim>\<open>None\<close>, since subscripting a dictionary
  with \<^verbatim>\<open>0\<close> raises the \<^verbatim>\<open>KeyError\<close> that the \<^verbatim>\<open>except\<close> clause catches.
\<close>

theorem root_helpers_absent_counterexample:
  "map_of [(''value'', PDict [])] ''value'' = Some (PDict [])
   \<and> get_root_value (PDict [(''value'', PDict [])]) =
       ([''Error occurred when getting root payload value 0''], Inr PNone)
   \<and> get_root_id (PDict [(''value'', PDict [])]) =
       ([''Error occurred when getting root id 0''], Inr PNone)"
  by (simp add: get_root_value_dict get_root_id_dict)

text \<open>
  C10, amended. For an envelope that is a dictionary, \<open>get_root_value\<close> takes its
  absent path (a printed line, the result \<^verbatim>\<open>None\<close>) exactly when the key \<^verbatim>\<open>value\<close> is
  missing or its value is itself a dictionary; \<open>get_root_id\<close> takes it exactly in these
  two cases and when the value is a list whose first element is a dictionary without
  the key \<^verbatim>\<open>Id\<close>. For every envelope in which \<^verbatim>\<open>value\<close> is present and is the empty list,
  both helpers raise \<open>IndexError\<close>, print nothing and return nothing.
\<close>

theorem root_helpers_absent:
  "(fst (get_root_value (PDict kvs)) \<noteq> [] \<longleftrightarrow>
      map_of kvs ''value'' = None \<or> (\<exists>d. map_of kvs ''value'' = Some (PDict d)))
   \<and> (fst (get_root_value (PDict kvs)) \<noteq> [] \<longrightarrow> snd (get_root_value (PDict kvs)) = Inr PNone)
   \<and> (fst (get_root_id (PDict kvs)) \<noteq> [] \<longleftrightarrow>
        map_of kvs ''value'' = None \<or> (\<exists>d. map_of kvs ''value'' = Some (PDict d))
        \<or> (\<exists>d xs. map_of kvs ''value'' = Some (PList (PDict d # xs)) \<and> map_of d ''Id'' = None))
   \<and> (fst (get_root_id (PDict kvs)) \<noteq> [] \<longrightarrow> snd (get_root_id (PDict kvs)) = Inr PNone)
   \<and> (map_of kvs ''value'' = Some (PList []) \<longrightarrow>
        get_root_value (PDict kvs) = ([], Inl IndexError)
        \<and> get_root_id (PDict kvs) = ([], Inl IndexError))"
  unfolding get_root_value_dict get_root_id_dict
  by (auto split: option.splits pyval.splits list.splits)

text \<open>C10, amended, at the envelopes \<^verbatim>\<open>{"value": []}\<close>, \<^verbatim>\<open>{}\<close> and \<^verbatim>\<open>{"value": [{}]}\<close>.\<close>

theorem root_helpers_absent_witness:
  "map_of [(''value'', PList [])] ''value'' = Some (PList [])
   \<and> get_root_value (PDict [(''value'', PList [])]) = ([], Inl IndexError)
   \<and> get_root_id (PDict [(''value'', PList [])]) = ([], Inl IndexError)
   \<and> map_of ([] :: (string \<times> pyval) list) ''value'' = None
   \<and> fst (get_root_value (PDict [])) \<noteq> []
   \<and> snd (get_root_value (PDict [])) = Inr PNone
   \<and> fst (get_root_id (PDict [(''value'', PList [PDict []])])) \<noteq> []
   \<and> snd (get_root_id (PDict [(''value'', PList [PDict []])])) = Inr PNone"
  using root_helpers_absent [of "[(''value'', PList [])]"]
    root_helpers_absent [of "[]"]
    root_helpers_absent [of "[(''value'', PList [PDict []])]"]
  by simp

section \<open>URL resolution of the dispatcher\<close>

text \<open>
  C8. With \<open>urljoin\<close> as modelled after \<^verbatim>\<open>urllib.parse\<close>, the resolution of the dispatcher
  is the standard base-URL join:
  \<^item> for the path \<^verbatim>\<open>/v1/organisation/X/hierarchy/location/nodes\<close> and the base
    \<^verbatim>\<open>https://host/\<close> the resolved URL is
    \<^verbatim>\<open>https://host/v1/organisation/X/hierarchy/location/nodes\<close>;
  \<^item> once the token has been obtained, for every path whatever, the one request that
    \<open>make_api_call\<close> sends goes to the URL that \<open>urljoin\<close> gives for
    \<open>LOCAL_HIERARCHY_URL\<close> and that path, and where \<open>urljoin\<close> raises the call raises
    the same exception and sends nothing;
  \<^item> against any \<^verbatim>\<open>https\<close> base with a host, whatever its path, query and fragment: a
    path from the root (one slash, no delimiter, no dot segment) replaces the path of
    the base entirely, and a relative path (no delimiter, no colon, no dot segment, no
    empty segment) replaces the last segment of the path of the base;
  \<^item> a reference with a scheme other than that of the base is an absolute URL and is
    returned as it is;
  \<^item> every example of the standard, normal and abnormal (dot segments, queries,
    fragments, parameters, network-path references), resolves to the target the
    standard gives.
\<close>

theorem urljoin_base_path:
  "urljoin ck ''https://host/'' ''/v1/organisation/X/hierarchy/location/nodes'' =
     Inr ''https://host/v1/organisation/X/hierarchy/location/nodes''
   \<and> (get_access_token e w = (Inr token, w1) \<longrightarrow>
        (urljoin (checks e) LOCAL_HIERARCHY_URL uri = Inr u \<longrightarrow>
           sent (snd (make_api_call e method uri payload uri_params w)) =
             sent w1 @
               [\<lparr>req_method = method, req_url = u,
                 req_params = uri_params, req_data = payload,
                 req_headers = [(''Authorization'', token),
                                (''Content-Type'', PStr ''application/json''),
                                (''accept'', PStr ''application/json'')]\<rparr>])
        \<and> (urljoin (checks e) LOCAL_HIERARCHY_URL uri = Inl err \<longrightarrow>
             make_api_call e method uri payload uri_params w = (Inl err, w1)))
   \<and> (urlparse ck base [] = Inr (''https'', host, bpath, bparams, bquery, bfragment)
        \<and> base \<noteq> [] \<and> host \<noteq> [] \<longrightarrow>
        (take 1 rest \<noteq> ''/'' \<and> no_delimiters rest \<and> no_dot_segments rest \<longrightarrow>
           urljoin ck base (CHR ''/'' # rest) = Inr (''https://'' @ host @ CHR ''/'' # rest))
        \<and> (bpath = d @ CHR ''/'' # file \<and> CHR ''/'' \<notin> set file
             \<and> (d = [] \<or> hd d = CHR ''/'') \<and> [] \<notin> set (tl (split_on (CHR ''/'') d))
             \<and> no_dot_segments d
             \<and> rel \<noteq> [] \<and> hd rel \<noteq> CHR ''/'' \<and> 32 < (of_char (hd rel) :: nat)
             \<and> no_delimiters rel \<and> CHR '':'' \<notin> set rel
             \<and> [] \<notin> set (butlast (split_on (CHR ''/'') rel)) \<and> no_dot_segments rel \<longrightarrow>
           urljoin ck base rel = Inr (''https://'' @ host @ d @ CHR ''/'' # rel)))
   \<and> (urlparse ck base' [] = Inr (bscheme, bnetloc, bpath', bparams', bquery', bfragment')
        \<and> base' \<noteq> []
        \<and> sch \<noteq> [] \<and> ascii_alpha (hd sch) \<and> (\<forall>c \<in> set sch. c \<in> set scheme_chars)
        \<and> map ascii_lower sch \<noteq> bscheme
        \<and> (\<forall>c \<in> set tail. (of_char c :: nat) \<notin> {9, 13, 10} \<and> c \<notin> set ''[]''
               \<and> (of_char c :: nat) < 128) \<longrightarrow>
        urljoin ck base' (sch @ CHR '':'' # tail) = Inr (sch @ CHR '':'' # tail))
   \<and> list_all (resolves ck rfc3986_base) rfc3986_normal_examples
   \<and> list_all (resolves ck rfc3986_base) rfc3986_abnormal_examples"
proof -
  have disp: "sent (snd (make_api_call e method uri payload uri_params w)) =
             sent w1 @
               [\<lparr>req_method = method, req_url = u,
                 req_params = uri_params, req_data = payload,
                 req_headers = [(''Authorization'', token),
                                (''Content-Type'', PStr ''application/json''),
                                (''accept'', PStr ''application/json'')]\<rparr>]"
    if "get_access_token e w = (Inr token, w1)"
      and "urljoin (checks e) LOCAL_HIERARCHY_URL uri = Inr u"
    using make_api_call_sent [OF that] by (simp add: api_request_def)
  have rooted: "urljoin ck base (CHR ''/'' # rest) = Inr (''https://'' @ host @ CHR ''/'' # rest)"
    if p: "urlparse ck base [] = Inr (''https'', host, bpath, bparams, bquery, bfragment)
        \<and> base \<noteq> [] \<and> host \<noteq> []"
      and r: "take 1 rest \<noteq> ''/'' \<and> no_delimiters rest \<and> no_dot_segments rest"
  proof -
    from p have p1: "urlparse ck base [] = Inr (''https'', host, bpath, bparams, bquery, bfragment)"
      and p2: "base \<noteq> []" and p3: "host \<noteq> []" by blast+
    from r have r1: "take 1 rest \<noteq> ''/''"
      and r2: "\<forall>c \<in> set rest. c \<notin> set ''#?;'' \<and> (of_char c :: nat) \<notin> {9, 13, 10}"
      and r3: "''.'' \<notin> set (split_on (CHR ''/'') rest)"
      and r4: "''..'' \<notin> set (split_on (CHR ''/'') rest)"
      unfolding no_delimiters_def no_dot_segments_def by blast+
    show ?thesis by (rule urljoin_absolute_path [OF p1 p2 p3 r1 r2 r3 r4])
  qed
  have relative: "urljoin ck base rel = Inr (''https://'' @ host @ d @ CHR ''/'' # rel)"
    if p: "urlparse ck base [] = Inr (''https'', host, bpath, bparams, bquery, bfragment)
        \<and> base \<noteq> [] \<and> host \<noteq> []"
      and r: "bpath = d @ CHR ''/'' # file \<and> CHR ''/'' \<notin> set file
             \<and> (d = [] \<or> hd d = CHR ''/'') \<and> [] \<notin> set (tl (split_on (CHR ''/'') d))
             \<and> no_dot_segments d
             \<and> rel \<noteq> [] \<and> hd rel \<noteq> CHR ''/'' \<and> 32 < (of_char (hd rel) :: nat)
             \<and> no_delimiters rel \<and> CHR '':'' \<notin> set rel
             \<and> [] \<notin> set (butlast (split_on (CHR ''/'') rel)) \<and> no_dot_segments rel"
  proof -
    from p r
    have p1: "urlparse ck base [] =
                Inr (''https'', host, d @ CHR ''/'' # file, bparams, bquery, bfragment)"
      by simp
    from p have p2: "base \<noteq> []" "host \<noteq> []" by blast+
    from r have f: "CHR ''/'' \<notin> set file" and d1: "d = [] \<or> hd d = CHR ''/''"
      and d2: "[] \<notin> set (tl (split_on (CHR ''/'') d))"
      and d3: "''.'' \<notin> set (split_on (CHR ''/'') d)" "''..'' \<notin> set (split_on (CHR ''/'') d)"
      and q1: "rel \<noteq> []" "hd rel \<noteq> CHR ''/''" "32 < (of_char (hd rel) :: nat)"
      and q3: "[] \<notin> set (butlast (split_on (CHR ''/'') rel))"
        "''.'' \<notin> set (split_on (CHR ''/'') rel)" "''..'' \<notin> set (split_on (CHR ''/'') rel)"
      unfolding no_dot_segments_def by blast+
    from r have "no_delimiters rel" and "CHR '':'' \<notin> set rel" by blast+
    then have q2: "\<forall>c \<in> set rel. c \<notin> set ''#?;:'' \<and> (of_char c :: nat) \<notin> {9, 13, 10}"
      unfolding no_delimiters_def by auto
    show ?thesis
      by (rule urljoin_relative_path [OF p1 p2 f d1 d2 d3 q1 q2 q3])
  qed
  have other: "urljoin ck base' (sch @ CHR '':'' # tail) = Inr (sch @ CHR '':'' # tail)"
    if a: "urlparse ck base' [] = Inr (bscheme, bnetloc, bpath', bparams', bquery', bfragment')
        \<and> base' \<noteq> []
        \<and> sch \<noteq> [] \<and> ascii_alpha (hd sch) \<and> (\<forall>c \<in> set sch. c \<in> set scheme_chars)
        \<and> map ascii_lower sch \<noteq> bscheme
        \<and> (\<forall>c \<in> set tail. (of_char c :: nat) \<notin> {9, 13, 10} \<and> c \<notin> set ''[]''
               \<and> (of_char c :: nat) < 128)"
  proof -
    from a have a1: "urlparse ck base' [] =
                       Inr (bscheme, bnetloc, bpath', bparams', bquery', bfragment')"
      and a2: "base' \<noteq> []" and a3: "sch \<noteq> []" and a4: "ascii_alpha (hd sch)"
      and a5: "\<forall>c \<in> set sch. c \<in> set scheme_chars"
      and a6: "map ascii_lower sch \<noteq> bscheme"
      and a7: "\<forall>c \<in> set tail. (of_char c :: nat) \<notin> {9, 13, 10} \<and> c \<notin> set ''[]''
               \<and> (of_char c :: nat) < 128"
      by blast+
    show ?thesis by (rule urljoin_other_scheme [OF a1 a2 a3 a4 a5 a6 a7])
  qed
  show ?thesis
  proof (intro conjI impI)
    show "urljoin ck ''https://host/'' ''/v1/organisation/X/hierarchy/location/nodes'' =
            Inr ''https://host/v1/organisation/X/hierarchy/location/nodes''"
      by (rule spec_url_example)
  qed (rule disp make_api_call_urljoin_error rooted relative other rfc3986_normal
        rfc3986_abnormal; assumption)+
qed

text \<open>C8 at examples: a relative path sent by the dispatcher with the token in the cache, a
  path from the root and a relative path against a base with a path, a \<^verbatim>\<open>mailto\<close> URL, and
  the examples of the standard.\<close>

theorem urljoin_base_path_witness:
  "urljoin no_checks ''https://host/'' ''/v1/organisation/X/hierarchy/location/nodes'' =
     Inr ''https://host/v1/organisation/X/hierarchy/location/nodes''
   \<and> get_access_token (example_env (constant_server ok_response)) warm_world =
       (Inr (PStr ''Bearer abc123''), warm_world)
   \<and> urljoin (checks (example_env (constant_server ok_response))) LOCAL_HIERARCHY_URL
        ''nodes/n1'' = Inr ''https://platform-hierarchy-service.localhost.net/nodes/n1''
   \<and> sent (snd (make_api_call (example_env (constant_server ok_response)) ''GET''
        ''nodes/n1'' (Dict []) [] warm_world)) =
       sent warm_world @
       [\<lparr>req_method = ''GET'',
         req_url = ''https://platform-hierarchy-service.localhost.net/nodes/n1'',
         req_params = [], req_data = Dict [],
         req_headers = [(''Authorization'', PStr ''Bearer abc123''),
                        (''Content-Type'', PStr ''application/json''),
                        (''accept'', PStr ''application/json'')]\<rparr>]
   \<and> urljoin no_checks ''https://host/api/v2/'' ''/nodes'' = Inr ''https://host/nodes''
   \<and> urljoin no_checks ''https://host/api/v2'' ''nodes'' = Inr ''https://host/api/nodes''
   \<and> urljoin no_checks LOCAL_HIERARCHY_URL ''mailto:x'' = Inr ''mailto:x''
   \<and> list_all (resolves no_checks rfc3986_base) rfc3986_normal_examples
   \<and> list_all (resolves no_checks rfc3986_base) rfc3986_abnormal_examples"
proof -
  let ?e = "example_env (constant_server ok_response)"
  note all = urljoin_base_path [where ck = no_checks]
  note example = all [THEN conjunct1]
  note dispatch = all [THEN conjunct2, THEN conjunct1]
  note paths = all [THEN conjunct2, THEN conjunct2, THEN conjunct1]
  note scheme = all [THEN conjunct2, THEN conjunct2, THEN conjunct2, THEN conjunct1]
  note normal = all [THEN conjunct2, THEN conjunct2, THEN conjunct2, THEN conjunct2,
      THEN conjunct1]
  note abnormal = all [THEN conjunct2, THEN conjunct2, THEN conjunct2, THEN conjunct2,
      THEN conjunct2]
  have ck: "checks ?e = no_checks"
    by (simp add: example_env_def)
  have hit: "get_access_token ?e warm_world = (Inr (PStr ''Bearer abc123''), warm_world)"
    by (rule warm_world_hit)
  have local: "urlparse no_checks LOCAL_HIERARCHY_URL [] =
      Inr (''https'', ''platform-hierarchy-service.localhost.net'', ''/'', [], [], [])
      \<and> LOCAL_HIERARCHY_URL \<noteq> [] \<and> ''platform-hierarchy-service.localhost.net'' \<noteq> []"
    by (simp add: base_parse hierarchy_base)
  have rel1: "''/'' = [] @ CHR ''/'' # [] \<and> CHR ''/'' \<notin> set []
      \<and> ([] = [] \<or> hd [] = CHR ''/'') \<and> [] \<notin> set (tl (split_on (CHR ''/'') []))
      \<and> no_dot_segments []
      \<and> ''nodes/n1'' \<noteq> [] \<and> hd ''nodes/n1'' \<noteq> CHR ''/''
      \<and> 32 < (of_char (hd ''nodes/n1'') :: nat)
      \<and> no_delimiters ''nodes/n1'' \<and> CHR '':'' \<notin> set ''nodes/n1''
      \<and> [] \<notin> set (butlast (split_on (CHR ''/'') ''nodes/n1''))
      \<and> no_dot_segments ''nodes/n1''"
    by (simp add: no_delimiters_def no_dot_segments_def)
  from paths [THEN mp, OF local, THEN conjunct2, THEN mp, OF rel1]
  have u: "urljoin no_checks LOCAL_HIERARCHY_URL ''nodes/n1'' =
             Inr ''https://platform-hierarchy-service.localhost.net/nodes/n1''"
    by simp
  with ck have u': "urljoin (checks ?e) LOCAL_HIERARCHY_URL ''nodes/n1'' =
             Inr ''https://platform-hierarchy-service.localhost.net/nodes/n1''"
    by simp
  have sent: "sent (snd (make_api_call ?e ''GET'' ''nodes/n1'' (Dict []) [] warm_world)) =
       sent warm_world @
       [\<lparr>req_method = ''GET'',
         req_url = ''https://platform-hierarchy-service.localhost.net/nodes/n1'',
         req_params = [], req_data = Dict [],
         req_headers = [(''Authorization'', PStr ''Bearer abc123''),
                        (''Content-Type'', PStr ''application/json''),
                        (''accept'', PStr ''application/json'')]\<rparr>]"
    by (rule dispatch [THEN mp, OF hit, THEN conjunct1, THEN mp, OF u'])
  have base2: "urlparse no_checks ''https://host/api/v2/'' [] =
      Inr (''https'', ''host'', ''/api/v2/'', [], [], [])
      \<and> ''https://host/api/v2/'' \<noteq> [] \<and> ''host'' \<noteq> []"
    by (simp add: api_v2_slash_parse)
  have root2: "take 1 ''nodes'' \<noteq> ''/'' \<and> no_delimiters ''nodes'' \<and> no_dot_segments ''nodes''"
    by (simp add: no_delimiters_def no_dot_segments_def)
  from paths [THEN mp, OF base2, THEN conjunct1, THEN mp, OF root2]
  have rooted: "urljoin no_checks ''https://host/api/v2/'' ''/nodes'' = Inr ''https://host/nodes''"
    by simp
  have base3: "urlparse no_checks ''https://host/api/v2'' [] =
      Inr (''https'', ''host'', ''/api/v2'', [], [], [])
      \<and> ''https://host/api/v2'' \<noteq> [] \<and> ''host'' \<noteq> []"
    by (simp add: api_v2_parse)
  have rel3: "''/api/v2'' = ''/api'' @ CHR ''/'' # ''v2'' \<and> CHR ''/'' \<notin> set ''v2''
      \<and> (''/api'' = [] \<or> hd ''/api'' = CHR ''/'')
      \<and> [] \<notin> set (tl (split_on (CHR ''/'') ''/api''))
      \<and> no_dot_segments ''/api''
      \<and> ''nodes'' \<noteq> [] \<and> hd ''nodes'' \<noteq> CHR ''/''
      \<and> 32 < (of_char (hd ''nodes'') :: nat)
      \<and> no_delimiters ''nodes'' \<and> CHR '':'' \<notin> set ''nodes''
      \<and> [] \<notin> set (butlast (split_on (CHR ''/'') ''nodes''))
      \<and> no_dot_segments ''nodes''"
    by (simp add: no_delimiters_def no_dot_segments_def)
  from paths [THEN mp, OF base3, THEN conjunct2, THEN mp, OF rel3]
  have relative: "urljoin no_checks ''https://host/api/v2'' ''nodes'' =
                    Inr ''https://host/api/nodes''"
    by simp
  have other: "urlparse no_checks LOCAL_HIERARCHY_URL [] =
      Inr (''https'', ''platform-hierarchy-service.localhost.net'', ''/'', [], [], [])
      \<and> LOCAL_HIERARCHY_URL \<noteq> []
      \<and> ''mailto'' \<noteq> [] \<and> ascii_alpha (hd ''mailto'')
      \<and> (\<forall>c \<in> set ''mailto''. c \<in> set scheme_chars)
      \<and> map ascii_lower ''mailto'' \<noteq> ''https''
      \<and> (\<forall>c \<in> set ''x''. (of_char c :: nat) \<notin> {9, 13, 10} \<and> c \<notin> set ''[]''
             \<and> (of_char c :: nat) < 128)"
    by (simp add: base_parse hierarchy_base ascii_alpha_def scheme_chars_def
        ascii_lower_letters_def ascii_upper_letters_def ascii_lower_def)
  from scheme [THEN mp, OF other]
  have mailto: "urljoin no_checks LOCAL_HIERARCHY_URL ''mailto:x'' = Inr ''mailto:x''"
    by simp
  from example hit u' sent rooted relative mailto normal abnormal
  show ?thesis by (intro conjI)
qed

end
